theory Spec2Isabelle
  imports Complex_Main "HOL-Library.Sublist"
begin

section \<open>Python values\<close>

text \<open>
  \<^verbatim>\<open>app.py\<close> works on what \<^verbatim>\<open>json.loads\<close> returns: \<^verbatim>\<open>None\<close>, booleans, numbers,
  strings, lists and dicts. A dict is the list of its items in insertion order and is
  looked up with \<open>map_of\<close>; a parsed dict has no key twice. A float is kept by its exact
  value (every finite float is a rational); \<^verbatim>\<open>NaN\<close> and the infinities are not
  represented. A character of a string is one code point below 256.
\<close>

datatype json =
    JNull
  | JBool bool
  | JInt int
  | JFloat rat
  | JStr string
  | JArr "json list"
  | JObj "(string \<times> json) list"

datatype error = KeyError string | TypeError | AttributeError | UnboundLocalError

text \<open>\<^verbatim>\<open>v[k]\<close> with a string \<open>k\<close>: only a dict can be subscripted by a string.\<close>

fun py_getitem :: "json \<Rightarrow> string \<Rightarrow> error + json" where
  "py_getitem (JObj kvs) k = (case map_of kvs k of None \<Rightarrow> Inl (KeyError k) | Some v \<Rightarrow> Inr v)"
| "py_getitem v k = Inl TypeError"

text \<open>\<^verbatim>\<open>v.get(k, default)\<close>: only a dict has the method.\<close>

fun py_get :: "json \<Rightarrow> string \<Rightarrow> json \<Rightarrow> error + json" where
  "py_get (JObj kvs) k dflt = (case map_of kvs k of None \<Rightarrow> Inr dflt | Some v \<Rightarrow> Inr v)"
| "py_get v k dflt = Inl AttributeError"

text \<open>
  \<^verbatim>\<open>for x in v\<close>: a list gives its elements, a dict its keys, a string its characters;
  nothing else is iterable.
\<close>

fun py_iter :: "json \<Rightarrow> error + json list" where
  "py_iter (JArr xs) = Inr xs"
| "py_iter (JObj kvs) = Inr (map (\<lambda>kv. JStr (fst kv)) kvs)"
| "py_iter (JStr s) = Inr (map (\<lambda>c. JStr [c]) s)"
| "py_iter v = Inl TypeError"

text \<open>
  A dict key is compared by value: \<^verbatim>\<open>True == 1 == 1.0\<close> and \<^verbatim>\<open>False == 0\<close> are one key
  each. Lists and dicts are unhashable.
\<close>

datatype pykey = KNone | KNum rat | KStr string

fun py_hash :: "json \<Rightarrow> error + pykey" where
  "py_hash JNull = Inr KNone"
| "py_hash (JBool b) = Inr (KNum (if b then 1 else 0))"
| "py_hash (JInt i) = Inr (KNum (of_int i))"
| "py_hash (JFloat r) = Inr (KNum r)"
| "py_hash (JStr s) = Inr (KStr s)"
| "py_hash (JArr xs) = Inl TypeError"
| "py_hash (JObj kvs) = Inl TypeError"

text \<open>Truth value of an object in a condition.\<close>

fun py_truthy :: "json \<Rightarrow> bool" where
  "py_truthy JNull = False"
| "py_truthy (JBool b) = b"
| "py_truthy (JInt i) = (i \<noteq> 0)"
| "py_truthy (JFloat r) = (r \<noteq> 0)"
| "py_truthy (JStr s) = (s \<noteq> [])"
| "py_truthy (JArr xs) = (xs \<noteq> [])"
| "py_truthy (JObj kvs) = (kvs \<noteq> [])"

text \<open>
  \<^verbatim>\<open>k in v\<close> with a string \<open>k\<close>: a key of a dict, an element of a list, a substring
  of a string; a \<^verbatim>\<open>TypeError\<close> on anything else.
\<close>

fun py_contains :: "string \<Rightarrow> json \<Rightarrow> error + bool" where
  "py_contains k (JObj kvs) = Inr (map_of kvs k \<noteq> None)"
| "py_contains k (JArr xs) = Inr (JStr k \<in> set xs)"
| "py_contains k (JStr s) = Inr (sublist k s)"
| "py_contains k v = Inl TypeError"

text \<open>\<^verbatim>\<open>s.strip()\<close>: the whitespace of \<^verbatim>\<open>str.isspace\<close> below code point 256.\<close>

definition py_whitespace :: "char list" where
  "py_whitespace =
     [CHR 0x09, CHR 0x0A, CHR 0x0B, CHR 0x0C, CHR 0x0D, CHR 0x1C, CHR 0x1D, CHR 0x1E,
      CHR 0x1F, CHR 0x20, CHR 0x85, CHR 0xA0]"

definition strip :: "string \<Rightarrow> string" where
  "strip s =
     rev (dropWhile (\<lambda>c. c \<in> set py_whitespace)
       (rev (dropWhile (\<lambda>c. c \<in> set py_whitespace) s)))"

section \<open>The Graphviz object\<close>

text \<open>
  \<^verbatim>\<open>graphviz.Digraph\<close> is a library object. It is modelled by what the program puts
  into it: the statements in call order, each with the arguments as passed (keyword
  arguments in the order written). An f-string is kept as its literal part and the
  interpolated value. What the library makes of an argument that is not a string is not
  part of this program.
\<close>

datatype fstring = FString string json

type_synonym attrs = "(string \<times> json) list"

datatype stmt =
    AttrStmt "string option" attrs
  | NodeStmt json attrs
  | EdgeStmt json json attrs
  | SubgraphStmt fstring "stmt list"

record digraph =
  comment :: string
  body :: "stmt list"

text \<open>A loop whose body can raise: the first error ends it.\<close>

fun for_each :: "('a \<Rightarrow> error + 'b) \<Rightarrow> 'a list \<Rightarrow> error + 'b list" where
  "for_each f [] = Inr []"
| "for_each f (x # xs) =
     (case f x of
        Inl e \<Rightarrow> Inl e
      | Inr y \<Rightarrow> (case for_each f xs of Inl e \<Rightarrow> Inl e | Inr ys \<Rightarrow> Inr (y # ys)))"

section \<open>generate_bpmn_diagram\<close>

text \<open>Lines 131 to 134: the new graph and its three attribute statements.\<close>

definition header :: "stmt list" where
  "header =
     [AttrStmt (Some ''graph'')
        [(''rankdir'', JStr ''LR''), (''splines'', JStr ''ortho''), (''nodesep'', JStr ''0.8''),
         (''ranksep'', JStr ''1.5''), (''bgcolor'', JStr ''transparent'')],
      AttrStmt (Some ''node'') [(''fontname'', JStr ''Arial''), (''fontsize'', JStr ''11'')],
      AttrStmt (Some ''edge'')
        [(''fontname'', JStr ''Arial''), (''fontsize'', JStr ''9''), (''color'', JStr ''#555555'')]]"

text \<open>Line 141: \<^verbatim>\<open>{sl["id"]: [] for sl in swimlanes}\<close>, started from the empty dict.\<close>

fun swimlane_dict :: "json list \<Rightarrow> (pykey \<rightharpoonup> json list) \<Rightarrow> error + (pykey \<rightharpoonup> json list)" where
  "swimlane_dict [] m = Inr m"
| "swimlane_dict (sl # sls) m =
     (case py_getitem sl ''id'' of
        Inl e \<Rightarrow> Inl e
      | Inr i \<Rightarrow>
          (case py_hash i of
             Inl e \<Rightarrow> Inl e
           | Inr k \<Rightarrow> swimlane_dict sls (m(k \<mapsto> []))))"

text \<open>Lines 142 to 145: each node is appended to the list of its swimlane, if there is one.\<close>

fun group_nodes :: "json list \<Rightarrow> (pykey \<rightharpoonup> json list) \<Rightarrow> error + (pykey \<rightharpoonup> json list)" where
  "group_nodes [] m = Inr m"
| "group_nodes (node # nodes) m =
     (case py_get node ''swimlane'' (JStr ''default'') of
        Inl e \<Rightarrow> Inl e
      | Inr swimlane_id \<Rightarrow>
          (case py_hash swimlane_id of
             Inl e \<Rightarrow> Inl e
           | Inr k \<Rightarrow>
               (case m k of
                  None \<Rightarrow> group_nodes nodes m
                | Some ns \<Rightarrow> group_nodes nodes (m(k \<mapsto> ns @ [node])))))"

definition colors :: "string list" where
  "colors = [''#E3F2FD'', ''#F3E5F5'', ''#E8F5E9'', ''#FFF3E0'', ''#FCE4EC'']"

text \<open>
  \<^verbatim>\<open>c.node(node["id"], label=node["label"], ...)\<close>: the two subscripts are evaluated in
  this order, then the statement is added with the style of the branch.
\<close>

definition node_call :: "json \<Rightarrow> attrs \<Rightarrow> error + stmt" where
  "node_call node style =
     (case py_getitem node ''id'' of
        Inl e \<Rightarrow> Inl e
      | Inr i \<Rightarrow>
          (case py_getitem node ''label'' of
             Inl e \<Rightarrow> Inl e
           | Inr l \<Rightarrow> Inr (NodeStmt i ((''label'', l) # style))))"

text \<open>Lines 156 to 177: the shape of one node, chosen by its type.\<close>

definition add_node :: "json \<Rightarrow> error + stmt" where
  "add_node node =
     (case py_get node ''type'' (JStr ''task'') of
        Inl e \<Rightarrow> Inl e
      | Inr node_type \<Rightarrow>
          if node_type = JStr ''start_event'' then
            node_call node
              [(''shape'', JStr ''circle''), (''style'', JStr ''filled''),
               (''fillcolor'', JStr ''#4CAF50''), (''fontcolor'', JStr ''white''),
               (''width'', JStr ''0.6''), (''height'', JStr ''0.6''), (''fixedsize'', JStr ''true'')]
          else if node_type = JStr ''end_event'' then
            node_call node
              [(''shape'', JStr ''doublecircle''), (''style'', JStr ''filled''),
               (''fillcolor'', JStr ''#F44336''), (''fontcolor'', JStr ''white''),
               (''width'', JStr ''0.6''), (''height'', JStr ''0.6''), (''fixedsize'', JStr ''true'')]
          else if node_type = JStr ''task'' then
            node_call node
              [(''shape'', JStr ''box''), (''style'', JStr ''rounded,filled''),
               (''fillcolor'', JStr ''#2196F3''), (''fontcolor'', JStr ''white'')]
          else if node_type = JStr ''gateway'' then
            node_call node
              [(''shape'', JStr ''diamond''), (''style'', JStr ''filled''),
               (''fillcolor'', JStr ''#FFC107''), (''fontcolor'', JStr ''black'')]
          else if node_type = JStr ''message'' then
            node_call node
              [(''shape'', JStr ''note''), (''style'', JStr ''filled''),
               (''fillcolor'', JStr ''#FF9800''), (''fontcolor'', JStr ''white'')]
          else
            node_call node
              [(''shape'', JStr ''box''), (''style'', JStr ''rounded,filled''),
               (''fillcolor'', JStr ''#9E9E9E''), (''fontcolor'', JStr ''white'')])"

text \<open>
  Lines 150 to 177: the cluster of the swimlane at position \<open>idx\<close>. The subgraph joins
  its parent when the \<^verbatim>\<open>with\<close> block ends, so an error inside leaves no cluster.
\<close>

definition cluster :: "(pykey \<rightharpoonup> json list) \<Rightarrow> nat \<times> json \<Rightarrow> error + stmt" where
  "cluster swimlane_nodes p =
     (case p of (idx, swimlane) \<Rightarrow>
       (case py_getitem swimlane ''id'' of
          Inl e \<Rightarrow> Inl e
        | Inr name_id \<Rightarrow>
       (case py_getitem swimlane ''label'' of
          Inl e \<Rightarrow> Inl e
        | Inr l \<Rightarrow>
       (case py_getitem swimlane ''id'' of
          Inl e \<Rightarrow> Inl e
        | Inr i \<Rightarrow>
       (case py_hash i of
          Inl e \<Rightarrow> Inl e
        | Inr k \<Rightarrow>
       (case for_each add_node (case swimlane_nodes k of None \<Rightarrow> [] | Some ns \<Rightarrow> ns) of
          Inl e \<Rightarrow> Inl e
        | Inr shapes \<Rightarrow>
            Inr (SubgraphStmt (FString ''cluster_'' name_id)
                  (AttrStmt None
                     [(''label'', l), (''style'', JStr ''filled''), (''color'', JStr ''#666666''),
                      (''fillcolor'', JStr (colors ! (idx mod length colors))),
                      (''fontsize'', JStr ''14''), (''fontname'', JStr ''Arial Bold'')]
                   # shapes))))))))"

text \<open>Lines 181 to 185: one edge statement; the keyword arguments are evaluated in order.\<close>

definition add_edge :: "json \<Rightarrow> error + stmt" where
  "add_edge edge =
     (case py_getitem edge ''from'' of
        Inl e \<Rightarrow> Inl e
      | Inr tail_name \<Rightarrow>
          (case py_getitem edge ''to'' of
             Inl e \<Rightarrow> Inl e
           | Inr head_name \<Rightarrow>
               (case py_get edge ''label'' (JStr []) of
                  Inl e \<Rightarrow> Inl e
                | Inr l \<Rightarrow> Inr (EdgeStmt tail_name head_name [(''label'', l)]))))"

text \<open>
  Lines 127 to 187. \<open>Inl\<close> is the exception that leaves the function, \<open>Inr\<close> the
  returned graph. The list \<^verbatim>\<open>swimlanes\<close> is run through twice (lines 141 and 149) and
  gives the same elements both times.
\<close>

definition generate_bpmn_diagram :: "json \<Rightarrow> error + digraph" where
  "generate_bpmn_diagram diagram_data =
     (case py_get diagram_data ''swimlanes'' (JArr []) of
        Inl e \<Rightarrow> Inl e
      | Inr swimlanes \<Rightarrow>
     (case py_get diagram_data ''nodes'' (JArr []) of
        Inl e \<Rightarrow> Inl e
      | Inr nodes \<Rightarrow>
     (case py_iter swimlanes of
        Inl e \<Rightarrow> Inl e
      | Inr sls \<Rightarrow>
     (case swimlane_dict sls Map.empty of
        Inl e \<Rightarrow> Inl e
      | Inr empty_lanes \<Rightarrow>
     (case py_iter nodes of
        Inl e \<Rightarrow> Inl e
      | Inr ns \<Rightarrow>
     (case group_nodes ns empty_lanes of
        Inl e \<Rightarrow> Inl e
      | Inr swimlane_nodes \<Rightarrow>
     (case for_each (cluster swimlane_nodes) (enumerate 0 sls) of
        Inl e \<Rightarrow> Inl e
      | Inr clusters \<Rightarrow>
     (case py_get diagram_data ''edges'' (JArr []) of
        Inl e \<Rightarrow> Inl e
      | Inr edges \<Rightarrow>
     (case py_iter edges of
        Inl e \<Rightarrow> Inl e
      | Inr es \<Rightarrow>
     (case for_each add_edge es of
        Inl e \<Rightarrow> Inl e
      | Inr connectors \<Rightarrow>
          Inr \<lparr>comment = ''BPMN Process Flow'',
               body = header @ clusters @ connectors\<rparr>))))))))))"

section \<open>The session\<close>

text \<open>
  The try block of \<^verbatim>\<open>get_structured_process_flow\<close> (lines 106 to 118) ends in one of
  four ways: \<^verbatim>\<open>json.loads\<close> returns a value (line 118); \<^verbatim>\<open>json.loads\<close> raises
  \<^verbatim>\<open>JSONDecodeError\<close> (line 118, with \<^verbatim>\<open>response_content\<close> bound at line 117); the
  request or the reading of the reply raises \<^verbatim>\<open>JSONDecodeError\<close> before line 117 has
  bound \<^verbatim>\<open>response_content\<close>; or anything in the block raises another exception. The
  endpoint is outside the program, so the way the block ends is an argument.
\<close>

datatype completion =
    Loaded json
  | JSONDecodeError
  | RequestJSONDecodeError
  | OtherException

text \<open>What the page shows, one constructor per call site.\<close>

datatype notice =
    ErrorClientNotInitialized
  | ErrorInvalidJson
  | CodeResponseContent
  | ErrorCommunicating
  | WarningTooShort
  | SuccessGenerated
  | ErrorFailedToGenerate

text \<open>
  Lines 59 to 125. \<open>client\<close> is false when the client is \<^verbatim>\<open>None\<close> (line 55). The
  function returns what \<^verbatim>\<open>json.loads\<close> gave, or \<^verbatim>\<open>None\<close>, here \<open>JNull\<close>, after a
  failure it handles. The handler of \<^verbatim>\<open>JSONDecodeError\<close> shows the error (line 120) and
  then reads \<^verbatim>\<open>response_content\<close> (line 121): when the exception came before line 117
  the name is unbound, and \<^verbatim>\<open>UnboundLocalError\<close> leaves the function.
\<close>

definition get_structured_process_flow ::
  "bool \<Rightarrow> completion \<Rightarrow> (error + json) \<times> notice list" where
  "get_structured_process_flow client c =
     (if \<not> client then (Inr JNull, [ErrorClientNotInitialized])
      else
        (case c of
           Loaded v \<Rightarrow> (Inr v, [])
         | JSONDecodeError \<Rightarrow> (Inr JNull, [ErrorInvalidJson, CodeResponseContent])
         | RequestJSONDecodeError \<Rightarrow> (Inl UnboundLocalError, [ErrorInvalidJson])
         | OtherException \<Rightarrow> (Inr JNull, [ErrorCommunicating])))"

record session_state =
  diagram_generated :: bool
  diagram_data :: json
  bpmn_xml :: json
  graph_obj :: "digraph option"

text \<open>Lines 204 to 208.\<close>

definition initial_state :: session_state where
  "initial_state =
     \<lparr>diagram_generated = False, diagram_data = JNull, bpmn_xml = JNull, graph_obj = None\<rparr>"

text \<open>
  Line 266: \<^verbatim>\<open>structured_output and "diagram_json" in structured_output and "bpmn_xml"
  in structured_output\<close>, with the short circuit of \<^verbatim>\<open>and\<close>.
\<close>

definition has_both_keys :: "json \<Rightarrow> error + bool" where
  "has_both_keys structured_output =
     (if \<not> py_truthy structured_output then Inr False
      else
        (case py_contains ''diagram_json'' structured_output of
           Inl e \<Rightarrow> Inl e
         | Inr False \<Rightarrow> Inr False
         | Inr True \<Rightarrow> py_contains ''bpmn_xml'' structured_output))"

text \<open>
  What one run of lines 261 to 275 leaves behind: the session state, the notices
  shown, and the exception that ended the run, if one did. The session state keeps
  every assignment made before an exception.
\<close>

record outcome =
  state :: session_state
  shown :: "notice list"
  raised :: "error option"

text \<open>
  Lines 261 to 275 of \<^verbatim>\<open>main\<close>, with the button pressed or not, the text of the input
  box, and the session state of the run.
\<close>

definition main :: "bool \<Rightarrow> completion \<Rightarrow> bool \<Rightarrow> string \<Rightarrow> session_state \<Rightarrow> outcome" where
  "main client c generate_button user_input s =
     (if \<not> generate_button then \<lparr>state = s, shown = [], raised = None\<rparr>
      else if length (strip user_input) < 20 then
        \<lparr>state = s, shown = [WarningTooShort], raised = None\<rparr>
      else
        (case get_structured_process_flow client c of
           (Inl e, notices) \<Rightarrow> \<lparr>state = s, shown = notices, raised = Some e\<rparr>
         | (Inr structured_output, notices) \<Rightarrow>
          (case has_both_keys structured_output of
             Inl e \<Rightarrow> \<lparr>state = s, shown = notices, raised = Some e\<rparr>
           | Inr False \<Rightarrow>
               \<lparr>state = s\<lparr>diagram_generated := False\<rparr>,
                shown = notices @ [ErrorFailedToGenerate], raised = None\<rparr>
           | Inr True \<Rightarrow>
               (case py_getitem structured_output ''diagram_json'' of
                  Inl e \<Rightarrow> \<lparr>state = s, shown = notices, raised = Some e\<rparr>
                | Inr dj \<Rightarrow>
               (case py_getitem structured_output ''bpmn_xml'' of
                  Inl e \<Rightarrow> \<lparr>state = s\<lparr>diagram_data := dj\<rparr>, shown = notices, raised = Some e\<rparr>
                | Inr xml \<Rightarrow>
               (case generate_bpmn_diagram dj of
                  Inl e \<Rightarrow>
                    \<lparr>state = s\<lparr>diagram_data := dj, bpmn_xml := xml\<rparr>,
                     shown = notices, raised = Some e\<rparr>
                | Inr g \<Rightarrow>
                    \<lparr>state = s\<lparr>diagram_data := dj, bpmn_xml := xml, graph_obj := Some g,
                              diagram_generated := True\<rparr>,
                     shown = notices @ [SuccessGenerated], raised = None\<rparr>))))))"

section \<open>Reading a graph\<close>

text \<open>
  The three sequences the loops of \<^verbatim>\<open>generate_bpmn_diagram\<close> run through (lines 137
  and 141, 138 and 142, 180).
\<close>

definition swimlanes_of :: "json \<Rightarrow> error + json list" where
  "swimlanes_of graph =
     (case py_get graph ''swimlanes'' (JArr []) of Inl e \<Rightarrow> Inl e | Inr v \<Rightarrow> py_iter v)"

definition nodes_of :: "json \<Rightarrow> error + json list" where
  "nodes_of graph =
     (case py_get graph ''nodes'' (JArr []) of Inl e \<Rightarrow> Inl e | Inr v \<Rightarrow> py_iter v)"

definition edges_of :: "json \<Rightarrow> error + json list" where
  "edges_of graph =
     (case py_get graph ''edges'' (JArr []) of Inl e \<Rightarrow> Inl e | Inr v \<Rightarrow> py_iter v)"

text \<open>The dict key under which line 143 looks a node up, and line 141 enters a swimlane.\<close>

definition lane_key :: "json \<Rightarrow> error + pykey" where
  "lane_key node =
     (case py_get node ''swimlane'' (JStr ''default'') of Inl e \<Rightarrow> Inl e | Inr v \<Rightarrow> py_hash v)"

definition id_key :: "json \<Rightarrow> error + pykey" where
  "id_key swimlane =
     (case py_getitem swimlane ''id'' of Inl e \<Rightarrow> Inl e | Inr v \<Rightarrow> py_hash v)"

text \<open>
  The dict \<^verbatim>\<open>swimlane_nodes\<close> after line 145 in closed form: a key for each swimlane id,
  holding the nodes looked up under that key, in the order of \<^verbatim>\<open>nodes\<close>. Lemma
  \<open>grouped_lanes\<close> below shows that the two loops build exactly this dict.
\<close>

definition lanes :: "json list \<Rightarrow> json list \<Rightarrow> (pykey \<rightharpoonup> json list)" where
  "lanes sls ns k =
     (if Inr k \<in> id_key ` set sls then Some (filter (\<lambda>n. lane_key n = Inr k) ns) else None)"

text \<open>The statements of a graph by kind: its clusters and its connectors, in order.\<close>

fun is_subgraph :: "stmt \<Rightarrow> bool" where
  "is_subgraph (SubgraphStmt n b) = True"
| "is_subgraph s = False"

fun is_edge :: "stmt \<Rightarrow> bool" where
  "is_edge (EdgeStmt t h a) = True"
| "is_edge s = False"

fun is_node :: "stmt \<Rightarrow> bool" where
  "is_node (NodeStmt n a) = True"
| "is_node s = False"

definition clusters_of :: "digraph \<Rightarrow> stmt list" where
  "clusters_of d = filter is_subgraph (body d)"

definition connectors_of :: "digraph \<Rightarrow> stmt list" where
  "connectors_of d = filter is_edge (body d)"

fun cluster_name :: "stmt \<Rightarrow> fstring option" where
  "cluster_name (SubgraphStmt n b) = Some n"
| "cluster_name s = None"

fun cluster_attr :: "stmt \<Rightarrow> string \<Rightarrow> json option" where
  "cluster_attr (SubgraphStmt n (AttrStmt None a # b)) k = map_of a k"
| "cluster_attr s k = None"

fun cluster_shapes :: "stmt \<Rightarrow> stmt list" where
  "cluster_shapes (SubgraphStmt n b) = filter is_node b"
| "cluster_shapes s = []"

section \<open>Graphs of the data model\<close>

text \<open>
  A graph as the prompt of lines 76 to 89 describes it, as far as the renderer reads it:
  \<^verbatim>\<open>swimlanes\<close>, \<^verbatim>\<open>nodes\<close> and \<^verbatim>\<open>edges\<close> are lists or absent; a swimlane and a node
  are dicts with the strings \<^verbatim>\<open>id\<close> and \<^verbatim>\<open>label\<close>; an edge is a dict with the strings
  \<^verbatim>\<open>from\<close> and \<^verbatim>\<open>to\<close>; the \<^verbatim>\<open>swimlane\<close> of a node and the \<^verbatim>\<open>label\<close> of an edge are
  strings or absent. The \<^verbatim>\<open>type\<close> of a node is any value or absent, and no reference has
  to resolve.
\<close>

definition str_field :: "json \<Rightarrow> string \<Rightarrow> bool" where
  "str_field v k = (case py_getitem v k of Inr (JStr s) \<Rightarrow> True | _ \<Rightarrow> False)"

definition opt_str_field :: "json \<Rightarrow> string \<Rightarrow> bool" where
  "opt_str_field v k =
     (case v of
        JObj kvs \<Rightarrow> (case map_of kvs k of None \<Rightarrow> True | Some (JStr s) \<Rightarrow> True | Some _ \<Rightarrow> False)
      | _ \<Rightarrow> False)"

definition list_field :: "json \<Rightarrow> string \<Rightarrow> json list option" where
  "list_field g k = (case py_get g k (JArr []) of Inr (JArr xs) \<Rightarrow> Some xs | _ \<Rightarrow> None)"

definition well_formed :: "json \<Rightarrow> bool" where
  "well_formed g =
     (case (list_field g ''swimlanes'', list_field g ''nodes'', list_field g ''edges'') of
        (Some sls, Some ns, Some es) \<Rightarrow>
          (\<forall>sl \<in> set sls. str_field sl ''id'' \<and> str_field sl ''label'') \<and>
          (\<forall>n \<in> set ns. str_field n ''id'' \<and> str_field n ''label'' \<and> opt_str_field n ''swimlane'') \<and>
          (\<forall>e \<in> set es. str_field e ''from'' \<and> str_field e ''to'' \<and> opt_str_field e ''label'')
      | _ \<Rightarrow> False)"

text \<open>A valid graph is well formed and has no swimlane id and no node id twice.\<close>

definition valid_process_graph :: "json \<Rightarrow> bool" where
  "valid_process_graph g =
     (well_formed g \<and>
      (case (list_field g ''swimlanes'', list_field g ''nodes'') of
         (Some sls, Some ns) \<Rightarrow>
           distinct (map (\<lambda>sl. py_getitem sl ''id'') sls) \<and>
           distinct (map (\<lambda>n. py_getitem n ''id'') ns)
       | _ \<Rightarrow> False))"

section \<open>A closed form\<close>

text \<open>
  The keyword arguments that the branch taken for a node type passes after the label
  (lines 158 to 177), as one table. Lemma \<open>add_node_styles\<close> below shows that \<open>add_node\<close>
  passes exactly these.
\<close>

definition node_styles :: "json \<Rightarrow> attrs" where
  "node_styles t =
     (if t = JStr ''start_event'' then
        [(''shape'', JStr ''circle''), (''style'', JStr ''filled''),
         (''fillcolor'', JStr ''#4CAF50''), (''fontcolor'', JStr ''white''),
         (''width'', JStr ''0.6''), (''height'', JStr ''0.6''), (''fixedsize'', JStr ''true'')]
      else if t = JStr ''end_event'' then
        [(''shape'', JStr ''doublecircle''), (''style'', JStr ''filled''),
         (''fillcolor'', JStr ''#F44336''), (''fontcolor'', JStr ''white''),
         (''width'', JStr ''0.6''), (''height'', JStr ''0.6''), (''fixedsize'', JStr ''true'')]
      else if t = JStr ''task'' then
        [(''shape'', JStr ''box''), (''style'', JStr ''rounded,filled''),
         (''fillcolor'', JStr ''#2196F3''), (''fontcolor'', JStr ''white'')]
      else if t = JStr ''gateway'' then
        [(''shape'', JStr ''diamond''), (''style'', JStr ''filled''),
         (''fillcolor'', JStr ''#FFC107''), (''fontcolor'', JStr ''black'')]
      else if t = JStr ''message'' then
        [(''shape'', JStr ''note''), (''style'', JStr ''filled''),
         (''fillcolor'', JStr ''#FF9800''), (''fontcolor'', JStr ''white'')]
      else
        [(''shape'', JStr ''box''), (''style'', JStr ''rounded,filled''),
         (''fillcolor'', JStr ''#9E9E9E''), (''fontcolor'', JStr ''white'')])"

section \<open>Example inputs\<close>

text \<open>
  A graph with every tolerated defect: a node in a swimlane that does not exist, a node
  without a type, a node of an unknown type, a node without a swimlane, an edge to a
  dropped node, an edge to a node that never existed, and an edge without a label.
\<close>

definition ghost_node :: json where
  "ghost_node =
     JObj [(''id'', JStr ''ghost''), (''label'', JStr ''Ghost''), (''type'', JStr ''task''),
           (''swimlane'', JStr ''nobody'')]"

definition untyped_node :: json where
  "untyped_node =
     JObj [(''id'', JStr ''review''), (''label'', JStr ''Review''), (''swimlane'', JStr ''agent'')]"

definition degraded_swimlanes :: "json list" where
  "degraded_swimlanes =
     [JObj [(''id'', JStr ''customer''), (''label'', JStr ''Customer'')],
      JObj [(''id'', JStr ''agent''), (''label'', JStr ''Agent'')]]"

definition degraded_nodes :: "json list" where
  "degraded_nodes =
     [JObj [(''id'', JStr ''start''), (''label'', JStr ''Start''),
            (''type'', JStr ''start_event''), (''swimlane'', JStr ''customer'')],
      ghost_node,
      untyped_node,
      JObj [(''id'', JStr ''odd''), (''label'', JStr ''Odd''), (''type'', JStr ''timer''),
            (''swimlane'', JStr ''agent'')],
      JObj [(''id'', JStr ''stray''), (''label'', JStr ''Stray''), (''type'', JStr ''task'')]]"

definition degraded_edges :: "json list" where
  "degraded_edges =
     [JObj [(''from'', JStr ''start''), (''to'', JStr ''ghost'')],
      JObj [(''from'', JStr ''review''), (''to'', JStr ''nowhere''), (''label'', JStr ''Yes'')]]"

definition degraded_graph :: json where
  "degraded_graph =
     JObj [(''swimlanes'', JArr degraded_swimlanes), (''nodes'', JArr degraded_nodes),
           (''edges'', JArr degraded_edges)]"

text \<open>
  A valid graph: a customer submits a request, an agent approves or rejects it.
\<close>

definition scenario_swimlanes :: "json list" where
  "scenario_swimlanes =
     [JObj [(''id'', JStr ''customer''), (''label'', JStr ''Customer'')],
      JObj [(''id'', JStr ''agent''), (''label'', JStr ''Agent'')]]"

definition scenario_nodes :: "json list" where
  "scenario_nodes =
     [JObj [(''id'', JStr ''submit''), (''label'', JStr ''Submit request''),
            (''type'', JStr ''start_event''), (''swimlane'', JStr ''customer'')],
      JObj [(''id'', JStr ''decide''), (''label'', JStr ''Approve?''),
            (''type'', JStr ''gateway''), (''swimlane'', JStr ''agent'')],
      JObj [(''id'', JStr ''approved''), (''label'', JStr ''Approved''),
            (''type'', JStr ''end_event''), (''swimlane'', JStr ''agent'')],
      JObj [(''id'', JStr ''rejected''), (''label'', JStr ''Rejected''),
            (''type'', JStr ''end_event''), (''swimlane'', JStr ''agent'')]]"

definition scenario_edges :: "json list" where
  "scenario_edges =
     [JObj [(''from'', JStr ''submit''), (''to'', JStr ''decide''), (''label'', JStr [])],
      JObj [(''from'', JStr ''decide''), (''to'', JStr ''approved''), (''label'', JStr ''Approved'')],
      JObj [(''from'', JStr ''decide''), (''to'', JStr ''rejected''), (''label'', JStr ''Rejected'')]]"

definition scenario_graph :: json where
  "scenario_graph =
     JObj [(''swimlanes'', JArr scenario_swimlanes), (''nodes'', JArr scenario_nodes),
           (''edges'', JArr scenario_edges)]"

text \<open>Six swimlanes and nothing else: one more than the palette has colours.\<close>

definition six_swimlanes :: "json list" where
  "six_swimlanes =
     [JObj [(''id'', JStr ''a''), (''label'', JStr ''A'')],
      JObj [(''id'', JStr ''b''), (''label'', JStr ''B'')],
      JObj [(''id'', JStr ''c''), (''label'', JStr ''C'')],
      JObj [(''id'', JStr ''d''), (''label'', JStr ''D'')],
      JObj [(''id'', JStr ''e''), (''label'', JStr ''E'')],
      JObj [(''id'', JStr ''f''), (''label'', JStr ''F'')]]"

definition six_lane_graph :: json where
  "six_lane_graph = JObj [(''swimlanes'', JArr six_swimlanes)]"

text \<open>
  A session after a successful generation (of the empty graph), and a description long
  enough for line 262.
\<close>

definition stored_state :: session_state where
  "stored_state =
     \<lparr>diagram_generated = True, diagram_data = JObj [], bpmn_xml = JStr ''<definitions/>'',
      graph_obj = Some \<lparr>comment = ''BPMN Process Flow'', body = header\<rparr>\<rparr>"

definition description :: string where
  "description = ''A customer submits a request. The agent reviews it and approves or rejects it.''"

text \<open>
  A graph with one swimlane and one node of each of the five known types, and one of a
  type the code does not know.
\<close>

definition typed_swimlanes :: "json list" where
  "typed_swimlanes = [JObj [(''id'', JStr ''lane''), (''label'', JStr ''Lane'')]]"

definition typed_nodes :: "json list" where
  "typed_nodes =
     [JObj [(''id'', JStr ''n1''), (''label'', JStr ''Begin''), (''type'', JStr ''start_event''),
            (''swimlane'', JStr ''lane'')],
      JObj [(''id'', JStr ''n2''), (''label'', JStr ''Work''), (''type'', JStr ''task''),
            (''swimlane'', JStr ''lane'')],
      JObj [(''id'', JStr ''n3''), (''label'', JStr ''Choose''), (''type'', JStr ''gateway''),
            (''swimlane'', JStr ''lane'')],
      JObj [(''id'', JStr ''n4''), (''label'', JStr ''Mail''), (''type'', JStr ''message''),
            (''swimlane'', JStr ''lane'')],
      JObj [(''id'', JStr ''n5''), (''label'', JStr ''Wait''), (''type'', JStr ''timer''),
            (''swimlane'', JStr ''lane'')],
      JObj [(''id'', JStr ''n6''), (''label'', JStr ''Finish''), (''type'', JStr ''end_event''),
            (''swimlane'', JStr ''lane'')]]"

definition typed_graph :: json where
  "typed_graph = JObj [(''swimlanes'', JArr typed_swimlanes), (''nodes'', JArr typed_nodes)]"

section \<open>How the renderer runs\<close>

lemma for_each_Inr_D: "for_each f xs = Inr ys \<Longrightarrow> list_all2 (\<lambda>x y. f x = Inr y) xs ys"
  by (induction xs arbitrary: ys) (auto split: sum.splits)

lemma for_each_Inr_I: "list_all2 (\<lambda>x y. f x = Inr y) xs ys \<Longrightarrow> for_each f xs = Inr ys"
  by (induction xs ys rule: list_all2_induct) auto

lemma for_each_total: "\<forall>x \<in> set xs. \<exists>y. f x = Inr y \<Longrightarrow> \<exists>ys. for_each f xs = Inr ys"
  by (induction xs) (auto split: sum.splits)

lemma swimlane_dict_Inr:
  "swimlane_dict sls m = Inr m' \<Longrightarrow>
     (\<forall>sl \<in> set sls. \<exists>k. id_key sl = Inr k) \<and>
     (\<forall>k. m' k = (if Inr k \<in> id_key ` set sls then Some [] else m k))"
proof (induction sls arbitrary: m)
  case Nil
  then show ?case by simp
next
  case (Cons sl sls)
  from Cons.prems obtain i k where
    i: "py_getitem sl ''id'' = Inr i" and k: "py_hash i = Inr k"
    and rest: "swimlane_dict sls (m(k \<mapsto> [])) = Inr m'"
    by (auto split: sum.splits)
  have idk: "id_key sl = Inr k" using i k by (simp add: id_key_def)
  from Cons.IH [OF rest] idk show ?case by (auto simp: image_iff)
qed

lemma swimlane_dict_total:
  "\<forall>sl \<in> set sls. \<exists>k. id_key sl = Inr k \<Longrightarrow> \<exists>m'. swimlane_dict sls m = Inr m'"
  by (induction sls arbitrary: m) (auto simp: id_key_def split: sum.splits)

lemma group_nodes_Inr:
  "group_nodes ns m = Inr m' \<Longrightarrow>
     (\<forall>n \<in> set ns. \<exists>k. lane_key n = Inr k) \<and>
     (\<forall>k. m' k = (case m k of None \<Rightarrow> None
                   | Some xs \<Rightarrow> Some (xs @ filter (\<lambda>n. lane_key n = Inr k) ns)))"
proof (induction ns arbitrary: m)
  case Nil
  then show ?case by (auto split: option.splits)
next
  case (Cons n ns)
  from Cons.prems obtain v k where
    v: "py_get n ''swimlane'' (JStr ''default'') = Inr v" and k: "py_hash v = Inr k"
    by (auto split: sum.splits)
  have lk: "lane_key n = Inr k" using v k by (simp add: lane_key_def)
  show ?case
  proof (cases "m k")
    case None
    with Cons.prems v k have "group_nodes ns m = Inr m'" by simp
    from Cons.IH [OF this] lk None show ?thesis by (auto split: option.splits)
  next
    case (Some xs)
    with Cons.prems v k have "group_nodes ns (m(k \<mapsto> xs @ [n])) = Inr m'" by simp
    from Cons.IH [OF this] lk Some show ?thesis by (auto split: option.splits)
  qed
qed

lemma group_nodes_total:
  "\<forall>n \<in> set ns. \<exists>k. lane_key n = Inr k \<Longrightarrow> \<exists>m'. group_nodes ns m = Inr m'"
  by (induction ns arbitrary: m) (auto simp: lane_key_def split: sum.splits option.splits)

lemma grouped_lanes:
  assumes "swimlane_dict sls Map.empty = Inr m0" and "group_nodes ns m0 = Inr m"
  shows "m = lanes sls ns"
proof
  fix k
  have a: "m0 k = (if Inr k \<in> id_key ` set sls then Some [] else None)"
    using swimlane_dict_Inr [OF assms(1)] by simp
  have b: "m k = (case m0 k of None \<Rightarrow> None
                  | Some xs \<Rightarrow> Some (xs @ filter (\<lambda>n. lane_key n = Inr k) ns))"
    using group_nodes_Inr [OF assms(2)] by simp
  show "m k = lanes sls ns k" by (simp add: a b lanes_def)
qed

lemma cluster_Inr:
  "cluster m (idx, sl) = Inr c \<longleftrightarrow>
     (\<exists>i l k shapes.
        py_getitem sl ''id'' = Inr i \<and> py_getitem sl ''label'' = Inr l \<and> py_hash i = Inr k \<and>
        for_each add_node (case m k of None \<Rightarrow> [] | Some ns \<Rightarrow> ns) = Inr shapes \<and>
        c = SubgraphStmt (FString ''cluster_'' i)
              (AttrStmt None
                 [(''label'', l), (''style'', JStr ''filled''), (''color'', JStr ''#666666''),
                  (''fillcolor'', JStr (colors ! (idx mod length colors))),
                  (''fontsize'', JStr ''14''), (''fontname'', JStr ''Arial Bold'')]
               # shapes))"
  by (auto simp: cluster_def split: sum.splits)

lemma add_node_is_node: "add_node n = Inr s \<Longrightarrow> is_node s"
  by (auto simp: add_node_def node_call_def split: sum.splits if_splits)

lemma add_edge_is_edge: "add_edge e = Inr s \<Longrightarrow> is_edge s \<and> \<not> is_subgraph s"
  by (auto simp: add_edge_def split: sum.splits)

lemma generate_Inr:
  assumes "generate_bpmn_diagram g = Inr d"
  shows "\<exists>sls ns es cl ed.
           swimlanes_of g = Inr sls \<and> nodes_of g = Inr ns \<and> edges_of g = Inr es \<and>
           for_each (cluster (lanes sls ns)) (enumerate 0 sls) = Inr cl \<and>
           for_each add_edge es = Inr ed \<and>
           d = \<lparr>comment = ''BPMN Process Flow'', body = header @ cl @ ed\<rparr>"
proof -
  from assms obtain sv nv sls m0 ns m cl ev es ed where
    sv: "py_get g ''swimlanes'' (JArr []) = Inr sv" and
    nv: "py_get g ''nodes'' (JArr []) = Inr nv" and
    sls: "py_iter sv = Inr sls" and
    m0: "swimlane_dict sls Map.empty = Inr m0" and
    ns: "py_iter nv = Inr ns" and
    m: "group_nodes ns m0 = Inr m" and
    cl: "for_each (cluster m) (enumerate 0 sls) = Inr cl" and
    ev: "py_get g ''edges'' (JArr []) = Inr ev" and
    es: "py_iter ev = Inr es" and
    ed: "for_each add_edge es = Inr ed" and
    d: "d = \<lparr>comment = ''BPMN Process Flow'', body = header @ cl @ ed\<rparr>"
    unfolding generate_bpmn_diagram_def by (auto split: sum.splits)
  have "swimlanes_of g = Inr sls" "nodes_of g = Inr ns" "edges_of g = Inr es"
    using sv nv ev sls ns es by (simp_all add: swimlanes_of_def nodes_of_def edges_of_def)
  moreover have "for_each (cluster (lanes sls ns)) (enumerate 0 sls) = Inr cl"
    using cl grouped_lanes [OF m0 m] by simp
  ultimately show ?thesis using ed d by blast
qed

lemma generate_Inr_I:
  assumes sw: "swimlanes_of g = Inr sls" and nd: "nodes_of g = Inr ns" and eg: "edges_of g = Inr es"
    and ids: "\<forall>sl \<in> set sls. \<exists>k. id_key sl = Inr k"
    and lks: "\<forall>n \<in> set ns. \<exists>k. lane_key n = Inr k"
    and cl: "for_each (cluster (lanes sls ns)) (enumerate 0 sls) = Inr cl"
    and ed: "for_each add_edge es = Inr ed"
  shows "generate_bpmn_diagram g = Inr \<lparr>comment = ''BPMN Process Flow'', body = header @ cl @ ed\<rparr>"
proof -
  from sw obtain sv where sv: "py_get g ''swimlanes'' (JArr []) = Inr sv" "py_iter sv = Inr sls"
    by (auto simp: swimlanes_of_def split: sum.splits)
  from nd obtain nv where nv: "py_get g ''nodes'' (JArr []) = Inr nv" "py_iter nv = Inr ns"
    by (auto simp: nodes_of_def split: sum.splits)
  from eg obtain ev where ev: "py_get g ''edges'' (JArr []) = Inr ev" "py_iter ev = Inr es"
    by (auto simp: edges_of_def split: sum.splits)
  from swimlane_dict_total [OF ids] obtain m0 where m0: "swimlane_dict sls Map.empty = Inr m0"
    by blast
  from group_nodes_total [OF lks] obtain m where m: "group_nodes ns m0 = Inr m"
    by blast
  have "m = lanes sls ns" by (rule grouped_lanes [OF m0 m])
  with cl have cl': "for_each (cluster m) (enumerate 0 sls) = Inr cl" by simp
  show ?thesis
    unfolding generate_bpmn_diagram_def by (simp add: sv nv ev m0 m cl' ed)
qed

lemma str_field_iff: "str_field v k \<longleftrightarrow> (\<exists>s. py_getitem v k = Inr (JStr s))"
  by (auto simp: str_field_def split: sum.splits json.splits)

lemma str_field_obj: "str_field v k \<Longrightarrow> \<exists>kvs. v = JObj kvs"
  by (cases v) (auto simp: str_field_def)

lemma list_field_Some:
  "list_field g k = Some xs \<Longrightarrow> py_get g k (JArr []) = Inr (JArr xs)"
  by (auto simp: list_field_def split: sum.splits json.splits)

lemma id_key_str: "str_field sl ''id'' \<Longrightarrow> \<exists>s. id_key sl = Inr (KStr s)"
  by (auto simp: str_field_iff id_key_def)

lemma lane_key_str: "opt_str_field n ''swimlane'' \<Longrightarrow> \<exists>s. lane_key n = Inr (KStr s)"
  by (cases n) (auto simp: opt_str_field_def lane_key_def split: option.splits json.splits)

lemma add_node_total:
  assumes "py_getitem n ''id'' = Inr i" and "py_getitem n ''label'' = Inr l"
  shows "\<exists>a. add_node n = Inr (NodeStmt i ((''label'', l) # a))"
proof -
  from assms(1) obtain kvs where "n = JObj kvs" by (cases n) auto
  then obtain t where "py_get n ''type'' (JStr ''task'') = Inr t"
    by (cases "map_of kvs ''type''") auto
  then show ?thesis using assms by (simp add: add_node_def node_call_def)
qed

lemma add_edge_total:
  assumes "str_field e ''from''" and "str_field e ''to''" and "opt_str_field e ''label''"
  shows "\<exists>c. add_edge e = Inr c"
proof -
  from assms(1) obtain kvs where e: "e = JObj kvs" using str_field_obj by blast
  then obtain l where "py_get e ''label'' (JStr []) = Inr l"
    by (cases "map_of kvs ''label''") auto
  then show ?thesis using assms(1,2) by (auto simp: add_edge_def str_field_iff)
qed

lemma well_formed_D:
  assumes "well_formed g"
  shows "\<exists>sls ns es.
           list_field g ''swimlanes'' = Some sls \<and> list_field g ''nodes'' = Some ns \<and>
           list_field g ''edges'' = Some es \<and>
           swimlanes_of g = Inr sls \<and> nodes_of g = Inr ns \<and> edges_of g = Inr es \<and>
           (\<forall>sl \<in> set sls. str_field sl ''id'' \<and> str_field sl ''label'') \<and>
           (\<forall>n \<in> set ns. str_field n ''id'' \<and> str_field n ''label'' \<and> opt_str_field n ''swimlane'') \<and>
           (\<forall>e \<in> set es. str_field e ''from'' \<and> str_field e ''to'' \<and> opt_str_field e ''label'')"
proof -
  from assms obtain sls ns es where
    l: "list_field g ''swimlanes'' = Some sls" "list_field g ''nodes'' = Some ns"
       "list_field g ''edges'' = Some es" and
    p: "\<forall>sl \<in> set sls. str_field sl ''id'' \<and> str_field sl ''label''"
       "\<forall>n \<in> set ns. str_field n ''id'' \<and> str_field n ''label'' \<and> opt_str_field n ''swimlane''"
       "\<forall>e \<in> set es. str_field e ''from'' \<and> str_field e ''to'' \<and> opt_str_field e ''label''"
    by (auto simp: well_formed_def split: option.splits)
  have "swimlanes_of g = Inr sls" "nodes_of g = Inr ns" "edges_of g = Inr es"
    using l by (simp_all add: swimlanes_of_def nodes_of_def edges_of_def list_field_Some)
  with l p show ?thesis by blast
qed

lemma cluster_total:
  assumes id: "str_field sl ''id''" and lab: "str_field sl ''label''"
    and ns: "\<forall>n \<in> set ns. str_field n ''id'' \<and> str_field n ''label''"
  shows "\<exists>c. cluster (lanes sls ns) (idx, sl) = Inr c"
proof -
  from id obtain s where i: "py_getitem sl ''id'' = Inr (JStr s)" by (auto simp: str_field_iff)
  from lab obtain l where l: "py_getitem sl ''label'' = Inr l" by (auto simp: str_field_iff)
  have "\<forall>n \<in> set (case lanes sls ns (KStr s) of None \<Rightarrow> [] | Some xs \<Rightarrow> xs). \<exists>y. add_node n = Inr y"
  proof
    fix n assume "n \<in> set (case lanes sls ns (KStr s) of None \<Rightarrow> [] | Some xs \<Rightarrow> xs)"
    then have "n \<in> set ns" by (auto simp: lanes_def split: if_splits)
    with ns obtain i l where "py_getitem n ''id'' = Inr i" "py_getitem n ''label'' = Inr l"
      by (auto simp: str_field_iff)
    from add_node_total [OF this] show "\<exists>y. add_node n = Inr y" by blast
  qed
  from for_each_total [OF this] obtain shapes where
    "for_each add_node (case lanes sls ns (KStr s) of None \<Rightarrow> [] | Some xs \<Rightarrow> xs) = Inr shapes"
    by blast
  then show ?thesis using i l by (simp add: cluster_Inr)
qed

lemma well_formed_returns:
  assumes "well_formed g"
  shows "\<exists>d. generate_bpmn_diagram g = Inr d"
proof -
  from well_formed_D [OF assms] obtain sls ns es where
    acc: "swimlanes_of g = Inr sls" "nodes_of g = Inr ns" "edges_of g = Inr es" and
    sl: "\<forall>sl \<in> set sls. str_field sl ''id'' \<and> str_field sl ''label''" and
    n: "\<forall>n \<in> set ns. str_field n ''id'' \<and> str_field n ''label'' \<and> opt_str_field n ''swimlane''" and
    e: "\<forall>e \<in> set es. str_field e ''from'' \<and> str_field e ''to'' \<and> opt_str_field e ''label''"
    by blast
  have ids: "\<forall>sl \<in> set sls. \<exists>k. id_key sl = Inr k" using sl id_key_str by blast
  have lks: "\<forall>n \<in> set ns. \<exists>k. lane_key n = Inr k" using n lane_key_str by blast
  have "\<forall>p \<in> set (enumerate 0 sls). \<exists>c. cluster (lanes sls ns) p = Inr c"
  proof
    fix p assume "p \<in> set (enumerate 0 sls)"
    then have "snd p \<in> set sls" by (metis in_set_enumerate_eq nth_mem add.right_neutral diff_zero)
    then obtain idx s where p: "p = (idx, s)" and "s \<in> set sls"
      by (metis prod.collapse)
    with sl n cluster_total [of s ns sls idx] show "\<exists>c. cluster (lanes sls ns) p = Inr c"
      by auto
  qed
  from for_each_total [OF this] obtain cl where
    cl: "for_each (cluster (lanes sls ns)) (enumerate 0 sls) = Inr cl" by blast
  have "\<forall>x \<in> set es. \<exists>c. add_edge x = Inr c" using e add_edge_total by blast
  from for_each_total [OF this] obtain ed where ed: "for_each add_edge es = Inr ed" by blast
  from generate_Inr_I [OF acc ids lks cl ed] show ?thesis by blast
qed

lemma cluster_is_subgraph: "cluster m p = Inr c \<Longrightarrow> is_subgraph c \<and> \<not> is_edge c"
  by (cases p) (auto simp: cluster_Inr)

lemma for_each_set:
  assumes "for_each f xs = Inr ys" and "y \<in> set ys"
  shows "\<exists>x \<in> set xs. f x = Inr y"
  using for_each_Inr_D [OF assms(1)] assms(2)
  by (metis (mono_tags, lifting) in_set_conv_nth list_all2_conv_all_nth)

lemma for_each_nth:
  assumes "for_each f xs = Inr ys"
  shows "length ys = length xs" and "i < length xs \<Longrightarrow> f (xs ! i) = Inr (ys ! i)"
  using for_each_Inr_D [OF assms] by (auto simp: list_all2_conv_all_nth)

lemma header_kinds: "filter is_subgraph header = []" "filter is_edge header = []"
  by (simp_all add: header_def)

lemma parts_of_body:
  assumes cl: "for_each (cluster m) ps = Inr cl" and ed: "for_each add_edge es = Inr ed"
    and d: "d = \<lparr>comment = c, body = header @ cl @ ed\<rparr>"
  shows "clusters_of d = cl" and "connectors_of d = ed"
proof -
  have a: "\<forall>x \<in> set cl. is_subgraph x \<and> \<not> is_edge x"
    using for_each_set [OF cl] cluster_is_subgraph by blast
  have b: "\<forall>x \<in> set ed. is_edge x \<and> \<not> is_subgraph x"
    using for_each_set [OF ed] add_edge_is_edge by blast
  have "filter is_subgraph cl = cl" "filter is_subgraph ed = []"
       "filter is_edge cl = []" "filter is_edge ed = ed"
    using a b by (simp_all add: filter_id_conv filter_empty_conv)
  then show "clusters_of d = cl" and "connectors_of d = ed"
    by (simp_all add: clusters_of_def connectors_of_def d header_kinds)
qed

text \<open>What a returned graph holds, position by position.\<close>

lemma rendered:
  assumes r: "generate_bpmn_diagram g = Inr d"
    and sw: "swimlanes_of g = Inr sls" and nd: "nodes_of g = Inr ns" and eg: "edges_of g = Inr es"
  shows "body d = header @ clusters_of d @ connectors_of d"
    and "for_each (cluster (lanes sls ns)) (enumerate 0 sls) = Inr (clusters_of d)"
    and "for_each add_edge es = Inr (connectors_of d)"
proof -
  from generate_Inr [OF r] sw nd eg obtain cl ed where
    cl: "for_each (cluster (lanes sls ns)) (enumerate 0 sls) = Inr cl" and
    ed: "for_each add_edge es = Inr ed" and
    d: "d = \<lparr>comment = ''BPMN Process Flow'', body = header @ cl @ ed\<rparr>"
    by auto
  note p = parts_of_body [OF cl ed d]
  show "body d = header @ clusters_of d @ connectors_of d" by (simp add: p) (simp add: d)
  show "for_each (cluster (lanes sls ns)) (enumerate 0 sls) = Inr (clusters_of d)"
    by (simp add: p cl)
  show "for_each add_edge es = Inr (connectors_of d)" by (simp add: p ed)
qed

lemma rendered_cluster:
  assumes r: "generate_bpmn_diagram g = Inr d"
    and sw: "swimlanes_of g = Inr sls" and nd: "nodes_of g = Inr ns"
    and j: "j < length sls"
  shows "\<exists>i l k shapes.
           py_getitem (sls ! j) ''id'' = Inr i \<and> py_getitem (sls ! j) ''label'' = Inr l \<and>
           py_hash i = Inr k \<and>
           for_each add_node (filter (\<lambda>n. lane_key n = Inr k) ns) = Inr shapes \<and>
           cluster_shapes (clusters_of d ! j) = shapes \<and>
           clusters_of d ! j =
             SubgraphStmt (FString ''cluster_'' i)
               (AttrStmt None
                  [(''label'', l), (''style'', JStr ''filled''), (''color'', JStr ''#666666''),
                   (''fillcolor'', JStr (colors ! (j mod length colors))),
                   (''fontsize'', JStr ''14''), (''fontname'', JStr ''Arial Bold'')]
                # shapes)"
proof -
  from generate_Inr [OF r] obtain es where eg: "edges_of g = Inr es" by blast
  note cl = rendered(2) [OF r sw nd eg]
  have "enumerate 0 sls ! j = (j, sls ! j)" using j by (simp add: nth_enumerate_eq)
  with for_each_nth(2) [OF cl, of j] j
  have "cluster (lanes sls ns) (j, sls ! j) = Inr (clusters_of d ! j)" by simp
  then obtain i l k shapes where
    i: "py_getitem (sls ! j) ''id'' = Inr i" and l: "py_getitem (sls ! j) ''label'' = Inr l" and
    k: "py_hash i = Inr k" and
    sh: "for_each add_node (case lanes sls ns k of None \<Rightarrow> [] | Some xs \<Rightarrow> xs) = Inr shapes" and
    c: "clusters_of d ! j =
          SubgraphStmt (FString ''cluster_'' i)
            (AttrStmt None
               [(''label'', l), (''style'', JStr ''filled''), (''color'', JStr ''#666666''),
                (''fillcolor'', JStr (colors ! (j mod length colors))),
                (''fontsize'', JStr ''14''), (''fontname'', JStr ''Arial Bold'')]
             # shapes)"
    unfolding cluster_Inr by blast
  have "id_key (sls ! j) = Inr k" using i k by (simp add: id_key_def)
  then have "Inr k \<in> id_key ` set sls" using j by (metis image_eqI nth_mem)
  then have "lanes sls ns k = Some (filter (\<lambda>n. lane_key n = Inr k) ns)" by (simp add: lanes_def)
  with sh have sh': "for_each add_node (filter (\<lambda>n. lane_key n = Inr k) ns) = Inr shapes" by simp
  have "\<forall>s \<in> set shapes. is_node s" using for_each_set [OF sh'] add_node_is_node by blast
  then have "cluster_shapes (clusters_of d ! j) = shapes" by (simp add: c filter_id_conv)
  with i l k sh' c show ?thesis by blast
qed

lemma degraded_graph_well_formed: "well_formed degraded_graph"
  by (simp add: well_formed_def degraded_graph_def degraded_swimlanes_def degraded_nodes_def
      degraded_edges_def ghost_node_def untyped_node_def list_field_def str_field_def
      opt_str_field_def)

lemma has_both_keys_obj:
  "has_both_keys (JObj kvs) =
     Inr (map_of kvs ''diagram_json'' \<noteq> None \<and> map_of kvs ''bpmn_xml'' \<noteq> None)"
  by (cases "map_of kvs ''diagram_json''"; cases kvs) (simp_all add: has_both_keys_def)

lemma has_both_keys_null: "has_both_keys JNull = Inr False"
  by (simp add: has_both_keys_def)

lemma add_edge_Inr:
  assumes "add_edge e = Inr c"
  shows "\<exists>kvs f t. e = JObj kvs \<and> map_of kvs ''from'' = Some f \<and> map_of kvs ''to'' = Some t \<and>
           c = EdgeStmt f t
                 [(''label'', case map_of kvs ''label'' of None \<Rightarrow> JStr [] | Some l \<Rightarrow> l)]"
proof -
  from assms obtain f t l where
    f: "py_getitem e ''from'' = Inr f" and t: "py_getitem e ''to'' = Inr t" and
    l: "py_get e ''label'' (JStr []) = Inr l" and c: "c = EdgeStmt f t [(''label'', l)]"
    by (auto simp: add_edge_def split: sum.splits)
  from f obtain kvs where e: "e = JObj kvs" by (cases e) auto
  from f t l show ?thesis
    unfolding e c by (auto split: option.splits)
qed

lemma add_node_styles:
  "py_get n ''type'' (JStr ''task'') = Inr t \<Longrightarrow> add_node n = node_call n (node_styles t)"
  unfolding add_node_def node_styles_def by (simp only: sum.case if_distrib [of "node_call n"])

lemma node_styles_known:
  "node_styles (JStr ''start_event'') =
     [(''shape'', JStr ''circle''), (''style'', JStr ''filled''),
      (''fillcolor'', JStr ''#4CAF50''), (''fontcolor'', JStr ''white''),
      (''width'', JStr ''0.6''), (''height'', JStr ''0.6''), (''fixedsize'', JStr ''true'')]"
  "node_styles (JStr ''end_event'') =
     [(''shape'', JStr ''doublecircle''), (''style'', JStr ''filled''),
      (''fillcolor'', JStr ''#F44336''), (''fontcolor'', JStr ''white''),
      (''width'', JStr ''0.6''), (''height'', JStr ''0.6''), (''fixedsize'', JStr ''true'')]"
  "node_styles (JStr ''task'') =
     [(''shape'', JStr ''box''), (''style'', JStr ''rounded,filled''),
      (''fillcolor'', JStr ''#2196F3''), (''fontcolor'', JStr ''white'')]"
  "node_styles (JStr ''gateway'') =
     [(''shape'', JStr ''diamond''), (''style'', JStr ''filled''),
      (''fillcolor'', JStr ''#FFC107''), (''fontcolor'', JStr ''black'')]"
  "node_styles (JStr ''message'') =
     [(''shape'', JStr ''note''), (''style'', JStr ''filled''),
      (''fillcolor'', JStr ''#FF9800''), (''fontcolor'', JStr ''white'')]"
  by (simp_all add: node_styles_def)

lemma node_styles_other:
  "t \<notin> {JStr ''start_event'', JStr ''end_event'', JStr ''task'', JStr ''gateway'',
         JStr ''message''} \<Longrightarrow>
   node_styles t =
     [(''shape'', JStr ''box''), (''style'', JStr ''rounded,filled''),
      (''fillcolor'', JStr ''#9E9E9E''), (''fontcolor'', JStr ''white'')]"
  by (simp add: node_styles_def)

lemma add_node_Inr:
  assumes "add_node n = Inr s"
  shows "\<exists>i l t. py_getitem n ''id'' = Inr i \<and> py_getitem n ''label'' = Inr l \<and>
           py_get n ''type'' (JStr ''task'') = Inr t \<and>
           s = NodeStmt i ((''label'', l) # node_styles t)"
proof -
  from assms obtain t where t: "py_get n ''type'' (JStr ''task'') = Inr t"
    unfolding add_node_def by (cases "py_get n ''type'' (JStr ''task'')") simp_all
  from assms have "node_call n (node_styles t) = Inr s" by (simp add: add_node_styles [OF t])
  then show ?thesis using t by (auto simp: node_call_def split: sum.splits)
qed

lemma clusters_length:
  assumes "generate_bpmn_diagram g = Inr d" and "swimlanes_of g = Inr sls"
  shows "length (clusters_of d) = length sls"
proof -
  from generate_Inr [OF assms(1)] obtain ns es where
    "nodes_of g = Inr ns" "edges_of g = Inr es" by blast
  from for_each_nth(1) [OF rendered(2) [OF assms this]] show ?thesis by simp
qed

lemma for_each_source:
  assumes "for_each f xs = Inr ys" and "x \<in> set xs"
  shows "\<exists>y \<in> set ys. f x = Inr y"
  using for_each_Inr_D [OF assms(1)] assms(2)
  by (metis (mono_tags, lifting) in_set_conv_nth list_all2_conv_all_nth)

lemma rendered_shape_source:
  assumes r: "generate_bpmn_diagram g = Inr d"
    and sw: "swimlanes_of g = Inr sls" and nd: "nodes_of g = Inr ns"
    and c: "c \<in> set (clusters_of d)" and s: "s \<in> set (cluster_shapes c)"
  shows "\<exists>m \<in> set ns. lane_key m \<in> id_key ` set sls \<and> add_node m = Inr s"
proof -
  from c obtain j where j: "j < length (clusters_of d)" "c = clusters_of d ! j"
    by (auto simp: in_set_conv_nth)
  then have j': "j < length sls" using clusters_length [OF r sw] by simp
  from rendered_cluster [OF r sw nd j'] obtain i k shapes where
    i: "py_getitem (sls ! j) ''id'' = Inr i" and k: "py_hash i = Inr k" and
    f: "for_each add_node (filter (\<lambda>n. lane_key n = Inr k) ns) = Inr shapes" and
    sh: "cluster_shapes (clusters_of d ! j) = shapes"
    by blast
  from s j sh have "s \<in> set shapes" by simp
  from for_each_set [OF f this] obtain m where
    m: "m \<in> set ns" "lane_key m = Inr k" "add_node m = Inr s" by auto
  have "id_key (sls ! j) = Inr k" using i k by (simp add: id_key_def)
  then have "Inr k \<in> id_key ` set sls" using j' by (metis image_eqI nth_mem)
  then have "lane_key m \<in> id_key ` set sls" using m(2) by simp
  with m(1,3) show ?thesis by blast
qed

lemma no_top_level_shape:
  assumes "generate_bpmn_diagram g = Inr d"
  shows "filter is_node (body d) = []"
proof -
  from generate_Inr [OF assms] obtain sls ns es where
    a: "swimlanes_of g = Inr sls" "nodes_of g = Inr ns" "edges_of g = Inr es" by blast
  note b = rendered [OF assms a]
  have "\<forall>x \<in> set (clusters_of d). \<not> is_node x" by (auto simp: clusters_of_def elim: is_subgraph.elims)
  moreover have "\<forall>x \<in> set (connectors_of d). \<not> is_node x"
    by (auto simp: connectors_of_def elim: is_edge.elims)
  moreover have "filter is_node header = []" by (simp add: header_def)
  ultimately show ?thesis by (simp add: b(1) filter_empty_conv)
qed

lemma degraded_parts:
  "swimlanes_of degraded_graph = Inr degraded_swimlanes"
  "nodes_of degraded_graph = Inr degraded_nodes"
  "edges_of degraded_graph = Inr degraded_edges"
  by (simp_all add: swimlanes_of_def nodes_of_def edges_of_def degraded_graph_def)

lemma getitem_obj: "py_getitem (JObj kvs) k = Inr v \<longleftrightarrow> map_of kvs k = Some v"
  by (cases "map_of kvs k") auto

lemma rendered_cluster_head:
  assumes r: "generate_bpmn_diagram g = Inr d" and sw: "swimlanes_of g = Inr sls"
    and j: "j < length sls"
  shows "\<exists>i l. py_getitem (sls ! j) ''id'' = Inr i \<and> py_getitem (sls ! j) ''label'' = Inr l \<and>
           cluster_name (clusters_of d ! j) = Some (FString ''cluster_'' i) \<and>
           cluster_attr (clusters_of d ! j) ''label'' = Some l \<and>
           cluster_attr (clusters_of d ! j) ''fillcolor'' =
             Some (JStr (colors ! (j mod length colors)))"
proof -
  from generate_Inr [OF r] obtain ns where nd: "nodes_of g = Inr ns" by blast
  from rendered_cluster [OF r sw nd j] obtain i l shapes where
    il: "py_getitem (sls ! j) ''id'' = Inr i" "py_getitem (sls ! j) ''label'' = Inr l" and
    c: "clusters_of d ! j =
          SubgraphStmt (FString ''cluster_'' i)
            (AttrStmt None
               [(''label'', l), (''style'', JStr ''filled''), (''color'', JStr ''#666666''),
                (''fillcolor'', JStr (colors ! (j mod length colors))),
                (''fontsize'', JStr ''14''), (''fontname'', JStr ''Arial Bold'')]
             # shapes)"
    by blast
  have "cluster_name (clusters_of d ! j) = Some (FString ''cluster_'' i)"
       "cluster_attr (clusters_of d ! j) ''label'' = Some l"
       "cluster_attr (clusters_of d ! j) ''fillcolor'' =
          Some (JStr (colors ! (j mod length colors)))"
    by (simp_all add: c)
  with il show ?thesis by blast
qed

lemma scenario_parts:
  "swimlanes_of scenario_graph = Inr scenario_swimlanes"
  "nodes_of scenario_graph = Inr scenario_nodes"
  "edges_of scenario_graph = Inr scenario_edges"
  by (simp_all add: swimlanes_of_def nodes_of_def edges_of_def scenario_graph_def)

lemma scenario_graph_valid: "valid_process_graph scenario_graph"
  by (simp add: valid_process_graph_def well_formed_def scenario_graph_def
      scenario_swimlanes_def scenario_nodes_def scenario_edges_def list_field_def str_field_def
      opt_str_field_def)

lemma six_lane_graph_renders: "\<exists>d. generate_bpmn_diagram six_lane_graph = Inr d"
  by (rule well_formed_returns)
     (simp add: well_formed_def six_lane_graph_def six_swimlanes_def list_field_def
       str_field_def)

lemma six_lane_parts: "swimlanes_of six_lane_graph = Inr six_swimlanes"
  by (simp add: swimlanes_of_def six_lane_graph_def)

lemma list_all2_two:
  assumes "list_all2 P [x, y] cs"
  obtains c1 c2 where "cs = [c1, c2]" and "P x c1" and "P y c2"
  using assms by (auto simp: list_all2_Cons1)

lemma description_long: "20 \<le> length (strip description)"
  by (simp add: description_def strip_def py_whitespace_def)

lemma typed_parts:
  "swimlanes_of typed_graph = Inr typed_swimlanes"
  "nodes_of typed_graph = Inr typed_nodes"
  by (simp_all add: swimlanes_of_def nodes_of_def typed_graph_def)

lemma typed_graph_well_formed: "well_formed typed_graph"
  by (simp add: well_formed_def typed_graph_def typed_swimlanes_def typed_nodes_def
      list_field_def str_field_def opt_str_field_def)

lemma list_all2_six:
  assumes "list_all2 P [x1, x2, x3, x4, x5, x6] ys"
  obtains y1 y2 y3 y4 y5 y6 where "ys = [y1, y2, y3, y4, y5, y6]"
    and "P x1 y1" and "P x2 y2" and "P x3 y3" and "P x4 y4" and "P x5 y5" and "P x6 y6"
  using assms by (auto simp: list_all2_Cons1)

lemma add_node_claimed:
  assumes "add_node n = Inr s"
  shows "\<exists>i l t a.
           py_getitem n ''id'' = Inr i \<and> py_getitem n ''label'' = Inr l \<and>
           py_get n ''type'' (JStr ''task'') = Inr t \<and>
           s = NodeStmt i ((''label'', l) # a) \<and>
           (t = JStr ''start_event'' \<longrightarrow>
              a = [(''shape'', JStr ''circle''), (''style'', JStr ''filled''),
                   (''fillcolor'', JStr ''#4CAF50''), (''fontcolor'', JStr ''white''),
                   (''width'', JStr ''0.6''), (''height'', JStr ''0.6''),
                   (''fixedsize'', JStr ''true'')]) \<and>
           (t = JStr ''end_event'' \<longrightarrow>
              a = [(''shape'', JStr ''doublecircle''), (''style'', JStr ''filled''),
                   (''fillcolor'', JStr ''#F44336''), (''fontcolor'', JStr ''white''),
                   (''width'', JStr ''0.6''), (''height'', JStr ''0.6''),
                   (''fixedsize'', JStr ''true'')]) \<and>
           (t = JStr ''task'' \<longrightarrow>
              a = [(''shape'', JStr ''box''), (''style'', JStr ''rounded,filled''),
                   (''fillcolor'', JStr ''#2196F3''), (''fontcolor'', JStr ''white'')]) \<and>
           (t = JStr ''gateway'' \<longrightarrow>
              a = [(''shape'', JStr ''diamond''), (''style'', JStr ''filled''),
                   (''fillcolor'', JStr ''#FFC107''), (''fontcolor'', JStr ''black'')]) \<and>
           (t = JStr ''message'' \<longrightarrow>
              a = [(''shape'', JStr ''note''), (''style'', JStr ''filled''),
                   (''fillcolor'', JStr ''#FF9800''), (''fontcolor'', JStr ''white'')]) \<and>
           (t \<notin> {JStr ''start_event'', JStr ''end_event'', JStr ''task'',
                  JStr ''gateway'', JStr ''message''} \<longrightarrow>
              a = [(''shape'', JStr ''box''), (''style'', JStr ''rounded,filled''),
                   (''fillcolor'', JStr ''#9E9E9E''), (''fontcolor'', JStr ''white'')])"
proof -
  from add_node_Inr [OF assms] obtain i l t where
    f: "py_getitem n ''id'' = Inr i" "py_getitem n ''label'' = Inr l"
       "py_get n ''type'' (JStr ''task'') = Inr t"
       "s = NodeStmt i ((''label'', l) # node_styles t)"
    by blast
  show ?thesis
    apply (rule exI [of _ i], rule exI [of _ l], rule exI [of _ t],
           rule exI [of _ "node_styles t"])
    apply (intro conjI impI f)
         apply (simp only: node_styles_known)+
    apply (erule node_styles_other)
    done
qed

lemma rendered_lane:
  assumes r: "generate_bpmn_diagram g = Inr d"
    and sw: "swimlanes_of g = Inr sls" and nd: "nodes_of g = Inr ns"
    and j: "j < length sls"
  shows "\<exists>k. id_key (sls ! j) = Inr k \<and>
           list_all2 (\<lambda>n s. add_node n = Inr s) (filter (\<lambda>n. lane_key n = Inr k) ns)
             (cluster_shapes (clusters_of d ! j))"
proof -
  from rendered_cluster [OF r sw nd j] obtain i k shapes where
    i: "py_getitem (sls ! j) ''id'' = Inr i" and k: "py_hash i = Inr k" and
    f: "for_each add_node (filter (\<lambda>n. lane_key n = Inr k) ns) = Inr shapes" and
    sh: "cluster_shapes (clusters_of d ! j) = shapes"
    by blast
  have "id_key (sls ! j) = Inr k" using i k by (simp add: id_key_def)
  moreover have "list_all2 (\<lambda>n s. add_node n = Inr s) (filter (\<lambda>n. lane_key n = Inr k) ns)
             (cluster_shapes (clusters_of d ! j))"
    unfolding sh by (rule for_each_Inr_D [OF f])
  ultimately show ?thesis by blast
qed

lemma has_both_keys_cases:
  "has_both_keys v = Inl TypeError \<or> has_both_keys v = Inr False \<or>
   (has_both_keys v = Inr True \<and>
    ((\<exists>kvs. v = JObj kvs \<and> map_of kvs ''diagram_json'' \<noteq> None \<and> map_of kvs ''bpmn_xml'' \<noteq> None) \<or>
     py_getitem v ''diagram_json'' = Inl TypeError))"
proof (cases v)
  case (JObj kvs)
  then show ?thesis by (auto simp: has_both_keys_obj)
qed (auto simp: has_both_keys_def split: bool.splits)

lemma has_both_keys_falsy: "\<not> py_truthy v \<Longrightarrow> has_both_keys v = Inr False"
  by (simp add: has_both_keys_def)

lemma main_of_reply:
  assumes long: "20 \<le> length (strip user_input)"
    and nb: "\<not> (\<exists>kvs. v = JObj kvs \<and> map_of kvs ''diagram_json'' \<noteq> None \<and>
                     map_of kvs ''bpmn_xml'' \<noteq> None)"
  shows "main True (Loaded v) True user_input s =
           (if has_both_keys v = Inr False
            then \<lparr>state = s\<lparr>diagram_generated := False\<rparr>, shown = [ErrorFailedToGenerate],
                  raised = None\<rparr>
            else \<lparr>state = s, shown = [], raised = Some TypeError\<rparr>)"
proof -
  have m: "main True (Loaded v) True user_input s =
      (case has_both_keys v of
         Inl e \<Rightarrow> \<lparr>state = s, shown = [], raised = Some e\<rparr>
       | Inr False \<Rightarrow>
           \<lparr>state = s\<lparr>diagram_generated := False\<rparr>,
            shown = [] @ [ErrorFailedToGenerate], raised = None\<rparr>
       | Inr True \<Rightarrow>
           (case py_getitem v ''diagram_json'' of
              Inl e \<Rightarrow> \<lparr>state = s, shown = [], raised = Some e\<rparr>
            | Inr dj \<Rightarrow>
           (case py_getitem v ''bpmn_xml'' of
              Inl e \<Rightarrow> \<lparr>state = s\<lparr>diagram_data := dj\<rparr>, shown = [], raised = Some e\<rparr>
            | Inr xml \<Rightarrow>
           (case generate_bpmn_diagram dj of
              Inl e \<Rightarrow>
                \<lparr>state = s\<lparr>diagram_data := dj, bpmn_xml := xml\<rparr>,
                 shown = [], raised = Some e\<rparr>
            | Inr g \<Rightarrow>
                \<lparr>state = s\<lparr>diagram_data := dj, bpmn_xml := xml, graph_obj := Some g,
                          diagram_generated := True\<rparr>,
                 shown = [] @ [SuccessGenerated], raised = None\<rparr>))))"
    using long by (simp add: main_def get_structured_process_flow_def)
  from has_both_keys_cases [of v] nb
  consider "has_both_keys v = Inl TypeError" | "has_both_keys v = Inr False"
    | "has_both_keys v = Inr True" "py_getitem v ''diagram_json'' = Inl TypeError"
    by blast
  then show ?thesis unfolding m by cases simp_all
qed

lemma main_of_failure:
  assumes long: "20 \<le> length (strip user_input)"
  shows "main False c True user_input s =
           \<lparr>state = s\<lparr>diagram_generated := False\<rparr>,
            shown = [ErrorClientNotInitialized, ErrorFailedToGenerate], raised = None\<rparr>"
    and "main True JSONDecodeError True user_input s =
           \<lparr>state = s\<lparr>diagram_generated := False\<rparr>,
            shown = [ErrorInvalidJson, CodeResponseContent, ErrorFailedToGenerate],
            raised = None\<rparr>"
    and "main True OtherException True user_input s =
           \<lparr>state = s\<lparr>diagram_generated := False\<rparr>,
            shown = [ErrorCommunicating, ErrorFailedToGenerate], raised = None\<rparr>"
    and "main True RequestJSONDecodeError True user_input s =
           \<lparr>state = s, shown = [ErrorInvalidJson], raised = Some UnboundLocalError\<rparr>"
  using long by (simp_all add: main_def get_structured_process_flow_def has_both_keys_null)

section \<open>The claims\<close>

subsection \<open>C1: rendering a malformed graph\<close>

text \<open>
  C1, amended. For every well-formed graph, \<^verbatim>\<open>generate_bpmn_diagram\<close> returns a diagram and
  raises nothing, and the diagram has a cluster for each swimlane and a connector for
  each edge. Well-formed asks for the keys the code subscripts (\<^verbatim>\<open>id\<close> and \<^verbatim>\<open>label\<close> of
  a swimlane and of a node, \<^verbatim>\<open>from\<close> and \<^verbatim>\<open>to\<close> of an edge) and for lists of dicts; it
  does not ask for \<^verbatim>\<open>swimlanes\<close>, \<^verbatim>\<open>nodes\<close> or \<^verbatim>\<open>edges\<close> to be present, for a node to
  have a \<^verbatim>\<open>type\<close> or a \<^verbatim>\<open>swimlane\<close>, for an edge to have a \<^verbatim>\<open>label\<close>, for a type to be
  a known one, or for any reference to resolve. Those defects only degrade the output.
\<close>

theorem render_returns_on_well_formed:
  assumes wf: "well_formed g"
  shows "\<exists>d sls es. generate_bpmn_diagram g = Inr d \<and>
           swimlanes_of g = Inr sls \<and> edges_of g = Inr es \<and>
           length (clusters_of d) = length sls \<and> length (connectors_of d) = length es"
proof -
  from well_formed_returns [OF wf] obtain d where r: "generate_bpmn_diagram g = Inr d" by blast
  from generate_Inr [OF r] obtain sls ns es where
    p: "swimlanes_of g = Inr sls" "nodes_of g = Inr ns" "edges_of g = Inr es" by blast
  have "length (clusters_of d) = length sls" by (rule clusters_length [OF r p(1)])
  moreover have "length (connectors_of d) = length es"
    by (rule for_each_nth(1) [OF rendered(3) [OF r p]])
  ultimately show ?thesis using r p by blast
qed

text \<open>The graph with every tolerated defect is well formed, and is rendered.\<close>

theorem render_returns_on_well_formed_witness:
  "well_formed degraded_graph \<and>
   (\<exists>d. generate_bpmn_diagram degraded_graph = Inr d \<and>
        length (clusters_of d) = 2 \<and> length (connectors_of d) = 2)"
proof -
  have h: "well_formed degraded_graph" by (rule degraded_graph_well_formed)
  from render_returns_on_well_formed [OF h] obtain d sls es where
    d: "generate_bpmn_diagram degraded_graph = Inr d" and
    p: "swimlanes_of degraded_graph = Inr sls" "edges_of degraded_graph = Inr es" and
    l: "length (clusters_of d) = length sls" "length (connectors_of d) = length es"
    by blast
  from p have "sls = degraded_swimlanes" "es = degraded_edges"
    by (simp_all add: degraded_parts)
  with l have "length (clusters_of d) = 2" "length (connectors_of d) = 2"
    by (simp_all add: degraded_swimlanes_def degraded_edges_def)
  with h d show ?thesis by blast
qed

text \<open>
  As stated the claim fails: a swimlane without an \<^verbatim>\<open>id\<close> ends the call at line 141 with
  \<^verbatim>\<open>KeyError\<close>, and no diagram is returned.
\<close>

theorem render_raises_on_missing_id:
  "generate_bpmn_diagram
     (JObj [(''swimlanes'', JArr [JObj [(''label'', JStr ''Customer'')]]),
            (''nodes'', JArr []), (''edges'', JArr [])]) = Inl (KeyError ''id'')"
  by (simp add: generate_bpmn_diagram_def)

subsection \<open>C2: a node in a swimlane that does not exist\<close>

text \<open>
  C2, amended. Let \<open>n\<close> be a node of a well-formed graph whose \<^verbatim>\<open>swimlane\<close> (\<^verbatim>\<open>"default"\<close>
  when the key is absent) is the id of no swimlane. Then \<^verbatim>\<open>generate_bpmn_diagram\<close>
  returns a diagram. The diagram has no shape outside its clusters and one cluster for
  each swimlane; the cluster at position \<open>j\<close> holds, in the order of \<^verbatim>\<open>nodes\<close>, the shapes
  of exactly the nodes whose swimlane is the id of the swimlane at position \<open>j\<close>, and \<open>n\<close>
  is not one of them. When no node that is drawn shares the id of \<open>n\<close>, no shape of the
  diagram carries that id. Well-formed includes that the \<^verbatim>\<open>swimlane\<close> of a node is a
  string or absent.
\<close>

theorem dangling_node_not_rendered:
  assumes wf: "well_formed g"
    and sw: "swimlanes_of g = Inr sls" and nd: "nodes_of g = Inr ns"
    and n: "n \<in> set ns" and dangling: "lane_key n \<notin> id_key ` set sls"
  shows "\<exists>d. generate_bpmn_diagram g = Inr d \<and>
           filter is_node (body d) = [] \<and>
           length (clusters_of d) = length sls \<and>
           (\<forall>j. j < length sls \<longrightarrow>
              (\<exists>k. id_key (sls ! j) = Inr k \<and>
                 n \<notin> set (filter (\<lambda>m. lane_key m = Inr k) ns) \<and>
                 list_all2 (\<lambda>m s. add_node m = Inr s)
                   (filter (\<lambda>m. lane_key m = Inr k) ns)
                   (cluster_shapes (clusters_of d ! j)))) \<and>
           ((\<forall>m \<in> set ns. lane_key m \<in> id_key ` set sls \<longrightarrow>
                py_getitem m ''id'' \<noteq> py_getitem n ''id'') \<longrightarrow>
            (\<forall>c \<in> set (clusters_of d). \<forall>i a.
               NodeStmt i a \<in> set (cluster_shapes c) \<longrightarrow> py_getitem n ''id'' \<noteq> Inr i))"
proof -
  from well_formed_returns [OF wf] obtain d where r: "generate_bpmn_diagram g = Inr d" by blast
  have lane: "\<exists>k. id_key (sls ! j) = Inr k \<and>
                 n \<notin> set (filter (\<lambda>m. lane_key m = Inr k) ns) \<and>
                 list_all2 (\<lambda>m s. add_node m = Inr s)
                   (filter (\<lambda>m. lane_key m = Inr k) ns)
                   (cluster_shapes (clusters_of d ! j))"
    if j: "j < length sls" for j
  proof -
    from rendered_lane [OF r sw nd j] obtain k where
      k: "id_key (sls ! j) = Inr k" and
      l: "list_all2 (\<lambda>m s. add_node m = Inr s) (filter (\<lambda>m. lane_key m = Inr k) ns)
            (cluster_shapes (clusters_of d ! j))"
      by blast
    from k j have "Inr k \<in> id_key ` set sls" by (metis image_eqI nth_mem)
    with dangling have "lane_key n \<noteq> Inr k" by auto
    then have "n \<notin> set (filter (\<lambda>m. lane_key m = Inr k) ns)" by simp
    with k l show ?thesis by blast
  qed
  have ids: "py_getitem n ''id'' \<noteq> Inr i"
    if own_id: "\<forall>m \<in> set ns. lane_key m \<in> id_key ` set sls \<longrightarrow>
                   py_getitem m ''id'' \<noteq> py_getitem n ''id''"
      and c: "c \<in> set (clusters_of d)" and s: "NodeStmt i a \<in> set (cluster_shapes c)"
    for c i a
  proof -
    from rendered_shape_source [OF r sw nd c s] obtain m where
      m: "m \<in> set ns" "lane_key m \<in> id_key ` set sls" "add_node m = Inr (NodeStmt i a)"
      by blast
    from add_node_Inr [OF m(3)] have "py_getitem m ''id'' = Inr i" by auto
    with own_id m show ?thesis by auto
  qed
  from r no_top_level_shape [OF r] clusters_length [OF r sw] lane ids
  show ?thesis by blast
qed

text \<open>
  The node \<^verbatim>\<open>ghost\<close> of the degraded graph names the swimlane \<^verbatim>\<open>nobody\<close>; the graph is
  rendered, with its two clusters, and no shape has the id \<^verbatim>\<open>ghost\<close>.
\<close>

theorem dangling_node_not_rendered_witness:
  "well_formed degraded_graph \<and> ghost_node \<in> set degraded_nodes \<and>
   lane_key ghost_node \<notin> id_key ` set degraded_swimlanes \<and>
   (\<exists>d. generate_bpmn_diagram degraded_graph = Inr d \<and>
        filter is_node (body d) = [] \<and> length (clusters_of d) = 2 \<and>
        (\<forall>c \<in> set (clusters_of d). \<forall>i a.
           NodeStmt i a \<in> set (cluster_shapes c) \<longrightarrow> i \<noteq> JStr ''ghost''))"
proof -
  have wf: "well_formed degraded_graph" by (rule degraded_graph_well_formed)
  have n: "ghost_node \<in> set degraded_nodes" by (simp add: degraded_nodes_def)
  have dangling: "lane_key ghost_node \<notin> id_key ` set degraded_swimlanes"
    by (simp add: lane_key_def id_key_def ghost_node_def degraded_swimlanes_def)
  have own_id: "\<forall>m \<in> set degraded_nodes. lane_key m \<in> id_key ` set degraded_swimlanes \<longrightarrow>
                  py_getitem m ''id'' \<noteq> py_getitem ghost_node ''id''"
    by (simp add: degraded_nodes_def ghost_node_def untyped_node_def lane_key_def id_key_def
        degraded_swimlanes_def)
  have gid: "py_getitem ghost_node ''id'' = Inr (JStr ''ghost'')" by (simp add: ghost_node_def)
  from dangling_node_not_rendered [OF wf degraded_parts(1,2) n dangling] obtain d where
    d: "generate_bpmn_diagram degraded_graph = Inr d" and
    top: "filter is_node (body d) = []" and
    len: "length (clusters_of d) = length degraded_swimlanes" and
    no: "(\<forall>m \<in> set degraded_nodes. lane_key m \<in> id_key ` set degraded_swimlanes \<longrightarrow>
                py_getitem m ''id'' \<noteq> py_getitem ghost_node ''id'') \<longrightarrow>
         (\<forall>c \<in> set (clusters_of d). \<forall>i a.
            NodeStmt i a \<in> set (cluster_shapes c) \<longrightarrow> py_getitem ghost_node ''id'' \<noteq> Inr i)"
    by blast
  from len have len': "length (clusters_of d) = 2" by (simp add: degraded_swimlanes_def)
  from no [THEN mp, OF own_id]
  have no': "\<forall>c \<in> set (clusters_of d). \<forall>i a.
           NodeStmt i a \<in> set (cluster_shapes c) \<longrightarrow> i \<noteq> JStr ''ghost''"
    unfolding gid by blast
  show ?thesis by (intro conjI exI [of _ d] wf n dangling d top len' no')
qed

text \<open>
  As stated, for every graph, the claim fails: line 143 looks the \<^verbatim>\<open>swimlane\<close> of a node
  up in a dict, so a node whose \<^verbatim>\<open>swimlane\<close> is a list, which is the id of no swimlane,
  ends the call with \<^verbatim>\<open>TypeError\<close> (a list is not hashable).
\<close>

theorem render_raises_on_unhashable_swimlane:
  "generate_bpmn_diagram
     (JObj [(''swimlanes'', JArr [JObj [(''id'', JStr ''customer''), (''label'', JStr ''Customer'')]]),
            (''nodes'',
             JArr [JObj [(''id'', JStr ''a''), (''label'', JStr ''A''), (''type'', JStr ''task''),
                         (''swimlane'', JArr [JStr ''nobody''])]]),
            (''edges'', JArr [])]) = Inl TypeError"
  by (simp add: generate_bpmn_diagram_def)

subsection \<open>C3: one connector per edge\<close>

text \<open>
  C3, amended. For every well-formed graph, \<^verbatim>\<open>generate_bpmn_diagram\<close> returns a diagram
  whose connectors are, one for one and in order, the entries of \<^verbatim>\<open>edges\<close>: each connector
  runs from the \<^verbatim>\<open>from\<close> to the \<^verbatim>\<open>to\<close> of its edge and is labelled with the \<^verbatim>\<open>label\<close> of
  the edge, or with the empty string when the edge has none. Well-formed asks every edge
  for a \<^verbatim>\<open>from\<close> and a \<^verbatim>\<open>to\<close>, and asks nothing of the nodes they name: an edge to a
  dropped node or to a node that never existed is rendered like any other.
\<close>

theorem one_connector_per_edge:
  assumes wf: "well_formed g" and eg: "edges_of g = Inr es"
  shows "\<exists>d. generate_bpmn_diagram g = Inr d \<and>
           list_all2
             (\<lambda>e c. \<exists>kvs f t.
                e = JObj kvs \<and> map_of kvs ''from'' = Some f \<and> map_of kvs ''to'' = Some t \<and>
                c = EdgeStmt f t
                      [(''label'', case map_of kvs ''label'' of None \<Rightarrow> JStr [] | Some l \<Rightarrow> l)])
             es (connectors_of d)"
proof -
  from well_formed_returns [OF wf] obtain d where r: "generate_bpmn_diagram g = Inr d" by blast
  from generate_Inr [OF r] obtain sls ns where
    "swimlanes_of g = Inr sls" "nodes_of g = Inr ns" by blast
  from rendered(3) [OF r this eg] have "for_each add_edge es = Inr (connectors_of d)" .
  then have "list_all2 (\<lambda>e c. add_edge e = Inr c) es (connectors_of d)" by (rule for_each_Inr_D)
  then have "list_all2
             (\<lambda>e c. \<exists>kvs f t.
                e = JObj kvs \<and> map_of kvs ''from'' = Some f \<and> map_of kvs ''to'' = Some t \<and>
                c = EdgeStmt f t
                      [(''label'', case map_of kvs ''label'' of None \<Rightarrow> JStr [] | Some l \<Rightarrow> l)])
             es (connectors_of d)"
    by (rule list_all2_mono) (rule add_edge_Inr)
  with r show ?thesis by blast
qed

text \<open>
  The two edges of the degraded graph end at a dropped node and at a node that does not
  exist, and the second alone has a label.
\<close>

theorem one_connector_per_edge_witness:
  "well_formed degraded_graph \<and> edges_of degraded_graph = Inr degraded_edges \<and>
   (\<exists>d. generate_bpmn_diagram degraded_graph = Inr d \<and>
        connectors_of d =
          [EdgeStmt (JStr ''start'') (JStr ''ghost'') [(''label'', JStr [])],
           EdgeStmt (JStr ''review'') (JStr ''nowhere'') [(''label'', JStr ''Yes'')]])"
proof -
  have wf: "well_formed degraded_graph" by (rule degraded_graph_well_formed)
  from one_connector_per_edge [OF wf degraded_parts(3)] obtain d where
    d: "generate_bpmn_diagram degraded_graph = Inr d" and
    l: "list_all2
             (\<lambda>e c. \<exists>kvs f t.
                e = JObj kvs \<and> map_of kvs ''from'' = Some f \<and> map_of kvs ''to'' = Some t \<and>
                c = EdgeStmt f t
                      [(''label'', case map_of kvs ''label'' of None \<Rightarrow> JStr [] | Some l \<Rightarrow> l)])
             degraded_edges (connectors_of d)"
    by blast
  from l have c: "connectors_of d =
          [EdgeStmt (JStr ''start'') (JStr ''ghost'') [(''label'', JStr [])],
           EdgeStmt (JStr ''review'') (JStr ''nowhere'') [(''label'', JStr ''Yes'')]]"
    by (auto simp: degraded_edges_def list_all2_Cons1)
  show ?thesis by (intro conjI exI [of _ d] wf degraded_parts(3) d c)
qed

text \<open>
  As stated, for every graph, the claim fails: an entry of \<^verbatim>\<open>edges\<close> without a \<^verbatim>\<open>from\<close>
  ends the call at line 182 with \<^verbatim>\<open>KeyError\<close>, and no connector is emitted at all.
\<close>

theorem render_raises_on_edge_without_from:
  "generate_bpmn_diagram
     (JObj [(''swimlanes'', JArr []), (''nodes'', JArr []),
            (''edges'',
             JArr [JObj [(''from'', JStr ''a''), (''to'', JStr ''b'')],
                   JObj [(''label'', JStr ''x'')]])]) = Inl (KeyError ''from'')"
  by (simp add: generate_bpmn_diagram_def add_edge_def)

subsection \<open>C4: the shape of a node\<close>

text \<open>
  C4. The call returns a diagram for every well-formed graph, and well-formed allows
  any value as a type: no type makes the call fail. Whenever \<^verbatim>\<open>generate_bpmn_diagram\<close>
  returns a diagram, the cluster at position \<open>j\<close> holds one shape for each node whose
  swimlane is the id of the swimlane at position \<open>j\<close>, in the order of \<^verbatim>\<open>nodes\<close>, and no
  other shape. The shape of a node carries the id and the label of the node and is
  styled by its type \<open>t\<close> (\<^verbatim>\<open>"task"\<close> when the node has no type): \<^verbatim>\<open>start_event\<close> is a
  filled green circle of fixed size 0.6, \<^verbatim>\<open>end_event\<close> a filled red double circle of
  fixed size 0.6, \<^verbatim>\<open>task\<close> a blue rounded box, \<^verbatim>\<open>gateway\<close> a yellow diamond, \<^verbatim>\<open>message\<close>
  an orange note, and any other value a gray rounded box.
\<close>

theorem shape_by_type:
  assumes sw: "swimlanes_of g = Inr sls" and nd: "nodes_of g = Inr ns"
  shows "(well_formed g \<longrightarrow> (\<exists>d. generate_bpmn_diagram g = Inr d)) \<and>
         (\<forall>d. generate_bpmn_diagram g = Inr d \<longrightarrow>
            length (clusters_of d) = length sls \<and>
            (\<forall>j. j < length sls \<longrightarrow>
               (\<exists>k. id_key (sls ! j) = Inr k \<and>
                  list_all2
                    (\<lambda>n s. \<exists>i l t a.
                       py_getitem n ''id'' = Inr i \<and> py_getitem n ''label'' = Inr l \<and>
                       py_get n ''type'' (JStr ''task'') = Inr t \<and>
                       s = NodeStmt i ((''label'', l) # a) \<and>
                       (t = JStr ''start_event'' \<longrightarrow>
                          a = [(''shape'', JStr ''circle''), (''style'', JStr ''filled''),
                               (''fillcolor'', JStr ''#4CAF50''), (''fontcolor'', JStr ''white''),
                               (''width'', JStr ''0.6''), (''height'', JStr ''0.6''),
                               (''fixedsize'', JStr ''true'')]) \<and>
                       (t = JStr ''end_event'' \<longrightarrow>
                          a = [(''shape'', JStr ''doublecircle''), (''style'', JStr ''filled''),
                               (''fillcolor'', JStr ''#F44336''), (''fontcolor'', JStr ''white''),
                               (''width'', JStr ''0.6''), (''height'', JStr ''0.6''),
                               (''fixedsize'', JStr ''true'')]) \<and>
                       (t = JStr ''task'' \<longrightarrow>
                          a = [(''shape'', JStr ''box''), (''style'', JStr ''rounded,filled''),
                               (''fillcolor'', JStr ''#2196F3''), (''fontcolor'', JStr ''white'')]) \<and>
                       (t = JStr ''gateway'' \<longrightarrow>
                          a = [(''shape'', JStr ''diamond''), (''style'', JStr ''filled''),
                               (''fillcolor'', JStr ''#FFC107''), (''fontcolor'', JStr ''black'')]) \<and>
                       (t = JStr ''message'' \<longrightarrow>
                          a = [(''shape'', JStr ''note''), (''style'', JStr ''filled''),
                               (''fillcolor'', JStr ''#FF9800''), (''fontcolor'', JStr ''white'')]) \<and>
                       (t \<notin> {JStr ''start_event'', JStr ''end_event'', JStr ''task'',
                              JStr ''gateway'', JStr ''message''} \<longrightarrow>
                          a = [(''shape'', JStr ''box''), (''style'', JStr ''rounded,filled''),
                               (''fillcolor'', JStr ''#9E9E9E''), (''fontcolor'', JStr ''white'')]))
                    (filter (\<lambda>n. lane_key n = Inr k) ns)
                    (cluster_shapes (clusters_of d ! j)))))"
proof (intro conjI allI impI)
  assume "well_formed g"
  then show "\<exists>d. generate_bpmn_diagram g = Inr d" by (rule well_formed_returns)
next
  fix d assume "generate_bpmn_diagram g = Inr d"
  then show "length (clusters_of d) = length sls" using sw by (rule clusters_length)
next
  fix d j assume r: "generate_bpmn_diagram g = Inr d" and j: "j < length sls"
  from rendered_lane [OF r sw nd j] obtain k where
    k: "id_key (sls ! j) = Inr k" and
    l: "list_all2 (\<lambda>n s. add_node n = Inr s) (filter (\<lambda>n. lane_key n = Inr k) ns)
          (cluster_shapes (clusters_of d ! j))"
    by blast
  show "\<exists>k. id_key (sls ! j) = Inr k \<and>
          list_all2
            (\<lambda>n s. \<exists>i l t a.
               py_getitem n ''id'' = Inr i \<and> py_getitem n ''label'' = Inr l \<and>
               py_get n ''type'' (JStr ''task'') = Inr t \<and>
               s = NodeStmt i ((''label'', l) # a) \<and>
               (t = JStr ''start_event'' \<longrightarrow>
                  a = [(''shape'', JStr ''circle''), (''style'', JStr ''filled''),
                       (''fillcolor'', JStr ''#4CAF50''), (''fontcolor'', JStr ''white''),
                       (''width'', JStr ''0.6''), (''height'', JStr ''0.6''),
                       (''fixedsize'', JStr ''true'')]) \<and>
               (t = JStr ''end_event'' \<longrightarrow>
                  a = [(''shape'', JStr ''doublecircle''), (''style'', JStr ''filled''),
                       (''fillcolor'', JStr ''#F44336''), (''fontcolor'', JStr ''white''),
                       (''width'', JStr ''0.6''), (''height'', JStr ''0.6''),
                       (''fixedsize'', JStr ''true'')]) \<and>
               (t = JStr ''task'' \<longrightarrow>
                  a = [(''shape'', JStr ''box''), (''style'', JStr ''rounded,filled''),
                       (''fillcolor'', JStr ''#2196F3''), (''fontcolor'', JStr ''white'')]) \<and>
               (t = JStr ''gateway'' \<longrightarrow>
                  a = [(''shape'', JStr ''diamond''), (''style'', JStr ''filled''),
                       (''fillcolor'', JStr ''#FFC107''), (''fontcolor'', JStr ''black'')]) \<and>
               (t = JStr ''message'' \<longrightarrow>
                  a = [(''shape'', JStr ''note''), (''style'', JStr ''filled''),
                       (''fillcolor'', JStr ''#FF9800''), (''fontcolor'', JStr ''white'')]) \<and>
               (t \<notin> {JStr ''start_event'', JStr ''end_event'', JStr ''task'',
                      JStr ''gateway'', JStr ''message''} \<longrightarrow>
                  a = [(''shape'', JStr ''box''), (''style'', JStr ''rounded,filled''),
                       (''fillcolor'', JStr ''#9E9E9E''), (''fontcolor'', JStr ''white'')]))
            (filter (\<lambda>n. lane_key n = Inr k) ns)
            (cluster_shapes (clusters_of d ! j))"
    apply (rule exI [of _ k], rule conjI [OF k])
    apply (rule list_all2_mono [OF l])
    apply (erule add_node_claimed)
    done
qed

text \<open>
  One node of each known type and one of the unknown type \<^verbatim>\<open>timer\<close>, in one swimlane:
  the six shapes of the cluster.
\<close>

theorem shape_by_type_witness:
  "swimlanes_of typed_graph = Inr typed_swimlanes \<and> nodes_of typed_graph = Inr typed_nodes \<and>
   well_formed typed_graph \<and>
   (\<exists>d. generate_bpmn_diagram typed_graph = Inr d \<and> length (clusters_of d) = 1 \<and>
        cluster_shapes (clusters_of d ! 0) =
          [NodeStmt (JStr ''n1'')
             [(''label'', JStr ''Begin''), (''shape'', JStr ''circle''),
              (''style'', JStr ''filled''), (''fillcolor'', JStr ''#4CAF50''),
              (''fontcolor'', JStr ''white''), (''width'', JStr ''0.6''),
              (''height'', JStr ''0.6''), (''fixedsize'', JStr ''true'')],
           NodeStmt (JStr ''n2'')
             [(''label'', JStr ''Work''), (''shape'', JStr ''box''),
              (''style'', JStr ''rounded,filled''), (''fillcolor'', JStr ''#2196F3''),
              (''fontcolor'', JStr ''white'')],
           NodeStmt (JStr ''n3'')
             [(''label'', JStr ''Choose''), (''shape'', JStr ''diamond''),
              (''style'', JStr ''filled''), (''fillcolor'', JStr ''#FFC107''),
              (''fontcolor'', JStr ''black'')],
           NodeStmt (JStr ''n4'')
             [(''label'', JStr ''Mail''), (''shape'', JStr ''note''),
              (''style'', JStr ''filled''), (''fillcolor'', JStr ''#FF9800''),
              (''fontcolor'', JStr ''white'')],
           NodeStmt (JStr ''n5'')
             [(''label'', JStr ''Wait''), (''shape'', JStr ''box''),
              (''style'', JStr ''rounded,filled''), (''fillcolor'', JStr ''#9E9E9E''),
              (''fontcolor'', JStr ''white'')],
           NodeStmt (JStr ''n6'')
             [(''label'', JStr ''Finish''), (''shape'', JStr ''doublecircle''),
              (''style'', JStr ''filled''), (''fillcolor'', JStr ''#F44336''),
              (''fontcolor'', JStr ''white''), (''width'', JStr ''0.6''),
              (''height'', JStr ''0.6''), (''fixedsize'', JStr ''true'')]])"
proof -
  note t = shape_by_type [OF typed_parts]
  from t [THEN conjunct1, THEN mp, OF typed_graph_well_formed] obtain d where
    d: "generate_bpmn_diagram typed_graph = Inr d" by (rule exE)
  note u = t [THEN conjunct2, THEN spec, THEN mp, OF d]
  from u [THEN conjunct1] have len: "length (clusters_of d) = 1"
    by (simp add: typed_swimlanes_def)
  have j: "(0::nat) < length typed_swimlanes" by (simp add: typed_swimlanes_def)
  let ?P = "(\<lambda>n s. \<exists>i l t a.
                         py_getitem n ''id'' = Inr i \<and> py_getitem n ''label'' = Inr l \<and>
                         py_get n ''type'' (JStr ''task'') = Inr t \<and>
                         s = NodeStmt i ((''label'', l) # a) \<and>
                         (t = JStr ''start_event'' \<longrightarrow>
                            a = [(''shape'', JStr ''circle''), (''style'', JStr ''filled''),
                                 (''fillcolor'', JStr ''#4CAF50''), (''fontcolor'', JStr ''white''),
                                 (''width'', JStr ''0.6''), (''height'', JStr ''0.6''),
                                 (''fixedsize'', JStr ''true'')]) \<and>
                         (t = JStr ''end_event'' \<longrightarrow>
                            a = [(''shape'', JStr ''doublecircle''), (''style'', JStr ''filled''),
                                 (''fillcolor'', JStr ''#F44336''), (''fontcolor'', JStr ''white''),
                                 (''width'', JStr ''0.6''), (''height'', JStr ''0.6''),
                                 (''fixedsize'', JStr ''true'')]) \<and>
                         (t = JStr ''task'' \<longrightarrow>
                            a = [(''shape'', JStr ''box''), (''style'', JStr ''rounded,filled''),
                                 (''fillcolor'', JStr ''#2196F3''), (''fontcolor'', JStr ''white'')]) \<and>
                         (t = JStr ''gateway'' \<longrightarrow>
                            a = [(''shape'', JStr ''diamond''), (''style'', JStr ''filled''),
                                 (''fillcolor'', JStr ''#FFC107''), (''fontcolor'', JStr ''black'')]) \<and>
                         (t = JStr ''message'' \<longrightarrow>
                            a = [(''shape'', JStr ''note''), (''style'', JStr ''filled''),
                                 (''fillcolor'', JStr ''#FF9800''), (''fontcolor'', JStr ''white'')]) \<and>
                         (t \<notin> {JStr ''start_event'', JStr ''end_event'', JStr ''task'',
                                JStr ''gateway'', JStr ''message''} \<longrightarrow>
                            a = [(''shape'', JStr ''box''), (''style'', JStr ''rounded,filled''),
                                 (''fillcolor'', JStr ''#9E9E9E''), (''fontcolor'', JStr ''white'')]))"
  from u [THEN conjunct2, THEN spec, THEN mp, OF j] obtain k where
    k: "id_key (typed_swimlanes ! 0) = Inr k" and
    l: "list_all2 ?P (filter (\<lambda>n. lane_key n = Inr k) typed_nodes)
          (cluster_shapes (clusters_of d ! 0))"
    by blast
  from k have k': "k = KStr ''lane''" by (simp add: id_key_def typed_swimlanes_def)
  have f: "filter (\<lambda>n. lane_key n = Inr k) typed_nodes = typed_nodes"
    unfolding k' by (simp add: lane_key_def typed_nodes_def)
  from l have l': "list_all2 ?P typed_nodes (cluster_shapes (clusters_of d ! 0))"
    by (simp only: f)
  from l' [unfolded typed_nodes_def] obtain y1 y2 y3 y4 y5 y6 where
    ys: "cluster_shapes (clusters_of d ! 0) = [y1, y2, y3, y4, y5, y6]" and
    p1: "?P (JObj [(''id'', JStr ''n1''), (''label'', JStr ''Begin''), (''type'', JStr ''start_event''),
                   (''swimlane'', JStr ''lane'')]) y1" and
    p2: "?P (JObj [(''id'', JStr ''n2''), (''label'', JStr ''Work''), (''type'', JStr ''task''),
                   (''swimlane'', JStr ''lane'')]) y2" and
    p3: "?P (JObj [(''id'', JStr ''n3''), (''label'', JStr ''Choose''), (''type'', JStr ''gateway''),
                   (''swimlane'', JStr ''lane'')]) y3" and
    p4: "?P (JObj [(''id'', JStr ''n4''), (''label'', JStr ''Mail''), (''type'', JStr ''message''),
                   (''swimlane'', JStr ''lane'')]) y4" and
    p5: "?P (JObj [(''id'', JStr ''n5''), (''label'', JStr ''Wait''), (''type'', JStr ''timer''),
                   (''swimlane'', JStr ''lane'')]) y5" and
    p6: "?P (JObj [(''id'', JStr ''n6''), (''label'', JStr ''Finish''), (''type'', JStr ''end_event''),
                   (''swimlane'', JStr ''lane'')]) y6"
    by (rule list_all2_six)
  from p1 have y1: "y1 = NodeStmt (JStr ''n1'')
             [(''label'', JStr ''Begin''), (''shape'', JStr ''circle''),
              (''style'', JStr ''filled''), (''fillcolor'', JStr ''#4CAF50''),
              (''fontcolor'', JStr ''white''), (''width'', JStr ''0.6''),
              (''height'', JStr ''0.6''), (''fixedsize'', JStr ''true'')]"
    by auto
  from p2 have y2: "y2 = NodeStmt (JStr ''n2'')
             [(''label'', JStr ''Work''), (''shape'', JStr ''box''),
              (''style'', JStr ''rounded,filled''), (''fillcolor'', JStr ''#2196F3''),
              (''fontcolor'', JStr ''white'')]"
    by auto
  from p3 have y3: "y3 = NodeStmt (JStr ''n3'')
             [(''label'', JStr ''Choose''), (''shape'', JStr ''diamond''),
              (''style'', JStr ''filled''), (''fillcolor'', JStr ''#FFC107''),
              (''fontcolor'', JStr ''black'')]"
    by auto
  from p4 have y4: "y4 = NodeStmt (JStr ''n4'')
             [(''label'', JStr ''Mail''), (''shape'', JStr ''note''),
              (''style'', JStr ''filled''), (''fillcolor'', JStr ''#FF9800''),
              (''fontcolor'', JStr ''white'')]"
    by auto
  from p5 have y5: "y5 = NodeStmt (JStr ''n5'')
             [(''label'', JStr ''Wait''), (''shape'', JStr ''box''),
              (''style'', JStr ''rounded,filled''), (''fillcolor'', JStr ''#9E9E9E''),
              (''fontcolor'', JStr ''white'')]"
    by auto
  from p6 have y6: "y6 = NodeStmt (JStr ''n6'')
             [(''label'', JStr ''Finish''), (''shape'', JStr ''doublecircle''),
              (''style'', JStr ''filled''), (''fillcolor'', JStr ''#F44336''),
              (''fontcolor'', JStr ''white''), (''width'', JStr ''0.6''),
              (''height'', JStr ''0.6''), (''fixedsize'', JStr ''true'')]"
    by auto
  have shapes: "cluster_shapes (clusters_of d ! 0) =
          [NodeStmt (JStr ''n1'')
             [(''label'', JStr ''Begin''), (''shape'', JStr ''circle''),
              (''style'', JStr ''filled''), (''fillcolor'', JStr ''#4CAF50''),
              (''fontcolor'', JStr ''white''), (''width'', JStr ''0.6''),
              (''height'', JStr ''0.6''), (''fixedsize'', JStr ''true'')],
           NodeStmt (JStr ''n2'')
             [(''label'', JStr ''Work''), (''shape'', JStr ''box''),
              (''style'', JStr ''rounded,filled''), (''fillcolor'', JStr ''#2196F3''),
              (''fontcolor'', JStr ''white'')],
           NodeStmt (JStr ''n3'')
             [(''label'', JStr ''Choose''), (''shape'', JStr ''diamond''),
              (''style'', JStr ''filled''), (''fillcolor'', JStr ''#FFC107''),
              (''fontcolor'', JStr ''black'')],
           NodeStmt (JStr ''n4'')
             [(''label'', JStr ''Mail''), (''shape'', JStr ''note''),
              (''style'', JStr ''filled''), (''fillcolor'', JStr ''#FF9800''),
              (''fontcolor'', JStr ''white'')],
           NodeStmt (JStr ''n5'')
             [(''label'', JStr ''Wait''), (''shape'', JStr ''box''),
              (''style'', JStr ''rounded,filled''), (''fillcolor'', JStr ''#9E9E9E''),
              (''fontcolor'', JStr ''white'')],
           NodeStmt (JStr ''n6'')
             [(''label'', JStr ''Finish''), (''shape'', JStr ''doublecircle''),
              (''style'', JStr ''filled''), (''fillcolor'', JStr ''#F44336''),
              (''fontcolor'', JStr ''white''), (''width'', JStr ''0.6''),
              (''height'', JStr ''0.6''), (''fixedsize'', JStr ''true'')]]"
    unfolding ys y1 y2 y3 y4 y5 y6 by (rule refl)
  show ?thesis
    by (intro conjI exI [of _ d] typed_parts typed_graph_well_formed d len shapes)
qed

subsection \<open>C5: the colour of a swimlane\<close>

text \<open>
  C5. When \<^verbatim>\<open>generate_bpmn_diagram\<close> returns a diagram, the diagram has one cluster for
  each position of \<^verbatim>\<open>swimlanes\<close>; the cluster at position \<open>i\<close> is named after the id of the
  swimlane at position \<open>i\<close> and is filled with entry \<open>i mod 5\<close> of the palette of five
  colours; so the clusters at positions \<open>i\<close> and \<open>i + 5\<close> have the same fill colour.
\<close>

theorem swimlane_color_cycles:
  assumes r: "generate_bpmn_diagram g = Inr d" and sw: "swimlanes_of g = Inr sls"
    and i: "i < length sls"
  shows "length colors = 5 \<and> length (clusters_of d) = length sls \<and>
         (\<exists>v. py_getitem (sls ! i) ''id'' = Inr v \<and>
              cluster_name (clusters_of d ! i) = Some (FString ''cluster_'' v)) \<and>
         cluster_attr (clusters_of d ! i) ''fillcolor'' = Some (JStr (colors ! (i mod 5))) \<and>
         (i + 5 < length sls \<longrightarrow>
            cluster_attr (clusters_of d ! (i + 5)) ''fillcolor'' =
            cluster_attr (clusters_of d ! i) ''fillcolor'')"
proof -
  have len: "length colors = 5" by (simp add: colors_def)
  have fill: "cluster_attr (clusters_of d ! j) ''fillcolor'' = Some (JStr (colors ! (j mod 5)))"
    if "j < length sls" for j
    using rendered_cluster_head [OF r sw that] by (auto simp: len)
  from rendered_cluster_head [OF r sw i]
  have name: "\<exists>v. py_getitem (sls ! i) ''id'' = Inr v \<and>
              cluster_name (clusters_of d ! i) = Some (FString ''cluster_'' v)"
    by blast
  have "cluster_attr (clusters_of d ! (i + 5)) ''fillcolor'' =
        cluster_attr (clusters_of d ! i) ''fillcolor''" if "i + 5 < length sls"
    using fill [OF that] fill [OF i] by simp
  with len clusters_length [OF r sw] name fill [OF i] show ?thesis by blast
qed

text \<open>With six swimlanes the first and the sixth cluster share the first colour.\<close>

theorem swimlane_color_cycles_witness:
  "\<exists>d. generate_bpmn_diagram six_lane_graph = Inr d \<and>
       swimlanes_of six_lane_graph = Inr six_swimlanes \<and>
       length (clusters_of d) = 6 \<and>
       cluster_name (clusters_of d ! 0) = Some (FString ''cluster_'' (JStr ''a'')) \<and>
       cluster_attr (clusters_of d ! 0) ''fillcolor'' = Some (JStr ''#E3F2FD'') \<and>
       cluster_attr (clusters_of d ! 5) ''fillcolor'' = Some (JStr ''#E3F2FD'')"
proof -
  from six_lane_graph_renders obtain d where
    d: "generate_bpmn_diagram six_lane_graph = Inr d" by blast
  have i: "(0::nat) < length six_swimlanes" and i5: "(0::nat) + 5 < length six_swimlanes"
    by (simp_all add: six_swimlanes_def)
  from swimlane_color_cycles [OF d six_lane_parts i] i5
  have len: "length (clusters_of d) = length six_swimlanes" and
    nm: "\<exists>v. py_getitem (six_swimlanes ! 0) ''id'' = Inr v \<and>
             cluster_name (clusters_of d ! 0) = Some (FString ''cluster_'' v)" and
    c0: "cluster_attr (clusters_of d ! 0) ''fillcolor'' = Some (JStr (colors ! (0 mod 5)))" and
    c5: "cluster_attr (clusters_of d ! (0 + 5)) ''fillcolor'' =
         cluster_attr (clusters_of d ! 0) ''fillcolor''"
    by blast+
  from len have "length (clusters_of d) = 6" by (simp add: six_swimlanes_def)
  moreover from nm have "cluster_name (clusters_of d ! 0) = Some (FString ''cluster_'' (JStr ''a''))"
    by (auto simp: six_swimlanes_def)
  moreover from c0 have c0': "cluster_attr (clusters_of d ! 0) ''fillcolor'' = Some (JStr ''#E3F2FD'')"
    by (simp add: colors_def)
  moreover from c5 c0' have "cluster_attr (clusters_of d ! 5) ''fillcolor'' = Some (JStr ''#E3F2FD'')"
    by simp
  ultimately show ?thesis using d six_lane_parts by blast
qed

subsection \<open>C6: the same graph gives the same diagram\<close>

text \<open>
  C6 speaks of the text that the Graphviz library writes for a diagram, and of the
  absence of randomness and of the clock in it. \<^verbatim>\<open>generate_bpmn_diagram\<close> returns the
  \<^verbatim>\<open>Digraph\<close> object; the text is the library's \<^verbatim>\<open>source\<close>, read at line 286 of \<^verbatim>\<open>main\<close>,
  and is not part of this development. Of the function as embedded here the statement
  would be an instance of reflexivity, which says nothing of the program, so no theorem
  is stated for it.
\<close>

subsection \<open>C7: one cluster per swimlane\<close>

text \<open>
  C7. For every valid graph \<^verbatim>\<open>generate_bpmn_diagram\<close> returns a diagram that is not
  empty and whose clusters are, one for one and in the order of \<^verbatim>\<open>swimlanes\<close>, the
  swimlanes of the graph: each cluster is named after the id of its swimlane and
  labelled with the label of its swimlane.
\<close>

theorem one_cluster_per_swimlane:
  assumes v: "valid_process_graph g" and sw: "swimlanes_of g = Inr sls"
  shows "\<exists>d. generate_bpmn_diagram g = Inr d \<and> body d \<noteq> [] \<and>
           list_all2
             (\<lambda>sl c. \<exists>i l. py_getitem sl ''id'' = Inr i \<and> py_getitem sl ''label'' = Inr l \<and>
                        cluster_name c = Some (FString ''cluster_'' i) \<and>
                        cluster_attr c ''label'' = Some l)
             sls (clusters_of d)"
proof -
  from v have wf: "well_formed g" by (simp add: valid_process_graph_def)
  from well_formed_returns [OF wf] obtain d where r: "generate_bpmn_diagram g = Inr d" by blast
  from generate_Inr [OF r] obtain ns es where
    nd: "nodes_of g = Inr ns" and eg: "edges_of g = Inr es" by blast
  have "body d \<noteq> []" using rendered(1) [OF r sw nd eg] by (simp add: header_def)
  moreover have "list_all2
             (\<lambda>sl c. \<exists>i l. py_getitem sl ''id'' = Inr i \<and> py_getitem sl ''label'' = Inr l \<and>
                        cluster_name c = Some (FString ''cluster_'' i) \<and>
                        cluster_attr c ''label'' = Some l)
             sls (clusters_of d)"
    unfolding list_all2_conv_all_nth
  proof (intro conjI allI impI)
    show "length sls = length (clusters_of d)" using clusters_length [OF r sw] by simp
  next
    fix j assume "j < length sls"
    from rendered_cluster_head [OF r sw this]
    show "\<exists>i l. py_getitem (sls ! j) ''id'' = Inr i \<and> py_getitem (sls ! j) ''label'' = Inr l \<and>
                 cluster_name (clusters_of d ! j) = Some (FString ''cluster_'' i) \<and>
                 cluster_attr (clusters_of d ! j) ''label'' = Some l"
      by blast
  qed
  ultimately show ?thesis using r by blast
qed

text \<open>The scenario graph gives the clusters of the customer and of the agent, in this order.\<close>

theorem one_cluster_per_swimlane_witness:
  "valid_process_graph scenario_graph \<and> swimlanes_of scenario_graph = Inr scenario_swimlanes \<and>
   (\<exists>d. generate_bpmn_diagram scenario_graph = Inr d \<and> body d \<noteq> [] \<and>
        map cluster_name (clusters_of d) =
          [Some (FString ''cluster_'' (JStr ''customer'')),
           Some (FString ''cluster_'' (JStr ''agent''))] \<and>
        map (\<lambda>c. cluster_attr c ''label'') (clusters_of d) =
          [Some (JStr ''Customer''), Some (JStr ''Agent'')])"
proof -
  from one_cluster_per_swimlane [OF scenario_graph_valid scenario_parts(1)] obtain d where
    d: "generate_bpmn_diagram scenario_graph = Inr d" "body d \<noteq> []" and
    l: "list_all2
          (\<lambda>sl c. \<exists>i l. py_getitem sl ''id'' = Inr i \<and> py_getitem sl ''label'' = Inr l \<and>
                     cluster_name c = Some (FString ''cluster_'' i) \<and>
                     cluster_attr c ''label'' = Some l)
          scenario_swimlanes (clusters_of d)"
    by blast
  from l obtain c1 c2 where cs: "clusters_of d = [c1, c2]" and
    p1: "\<exists>i l. py_getitem (JObj [(''id'', JStr ''customer''), (''label'', JStr ''Customer'')]) ''id'' = Inr i \<and>
               py_getitem (JObj [(''id'', JStr ''customer''), (''label'', JStr ''Customer'')]) ''label'' = Inr l \<and>
               cluster_name c1 = Some (FString ''cluster_'' i) \<and> cluster_attr c1 ''label'' = Some l" and
    p2: "\<exists>i l. py_getitem (JObj [(''id'', JStr ''agent''), (''label'', JStr ''Agent'')]) ''id'' = Inr i \<and>
               py_getitem (JObj [(''id'', JStr ''agent''), (''label'', JStr ''Agent'')]) ''label'' = Inr l \<and>
               cluster_name c2 = Some (FString ''cluster_'' i) \<and> cluster_attr c2 ''label'' = Some l"
    unfolding scenario_swimlanes_def by (rule list_all2_two)
  from p1 have q1: "cluster_name c1 = Some (FString ''cluster_'' (JStr ''customer''))"
    "cluster_attr c1 ''label'' = Some (JStr ''Customer'')" by auto
  from p2 have q2: "cluster_name c2 = Some (FString ''cluster_'' (JStr ''agent''))"
    "cluster_attr c2 ''label'' = Some (JStr ''Agent'')" by auto
  have m: "map cluster_name (clusters_of d) =
       [Some (FString ''cluster_'' (JStr ''customer'')),
        Some (FString ''cluster_'' (JStr ''agent''))]"
    "map (\<lambda>c. cluster_attr c ''label'') (clusters_of d) =
       [Some (JStr ''Customer''), Some (JStr ''Agent'')]"
    by (simp_all add: cs q1 q2)
  show ?thesis
    by (intro conjI exI [of _ d] scenario_graph_valid scenario_parts(1) d m)
qed

subsection \<open>C8: a response without one of the two keys\<close>

text \<open>
  C8, amended. Let the reply parse to a value \<open>v\<close> that is not a dict holding both
  \<^verbatim>\<open>diagram_json\<close> and \<^verbatim>\<open>bpmn_xml\<close>, in a generate request (button pressed, description
  of at least 20 characters, client present). Then nothing of the reply is stored: the
  graph, the XML and the rendered diagram of the session stay, and no success is shown.
  When \<open>v\<close> is a dict, or is falsy (\<^verbatim>\<open>null\<close>, \<^verbatim>\<open>false\<close>, zero, an empty string or list),
  line 266 sends the run to the error branch: the error notice alone is shown, the flag
  is reset and no exception is raised. For any other \<open>v\<close> the run ends either in that
  branch or in an uncaught \<^verbatim>\<open>TypeError\<close> with the session untouched.
\<close>

theorem missing_key_is_rejected:
  assumes long: "20 \<le> length (strip user_input)"
    and lacks: "\<forall>kvs. v = JObj kvs \<longrightarrow>
                  map_of kvs ''diagram_json'' = None \<or> map_of kvs ''bpmn_xml'' = None"
    and r: "r = main True (Loaded v) True user_input s"
  shows "diagram_data (state r) = diagram_data s \<and> bpmn_xml (state r) = bpmn_xml s \<and>
         graph_obj (state r) = graph_obj s \<and> SuccessGenerated \<notin> set (shown r) \<and>
         ((\<exists>kvs. v = JObj kvs) \<or> \<not> py_truthy v \<longrightarrow>
            r = \<lparr>state = s\<lparr>diagram_generated := False\<rparr>, shown = [ErrorFailedToGenerate],
                 raised = None\<rparr>) \<and>
         (r = \<lparr>state = s\<lparr>diagram_generated := False\<rparr>, shown = [ErrorFailedToGenerate],
               raised = None\<rparr> \<or>
          r = \<lparr>state = s, shown = [], raised = Some TypeError\<rparr>)"
proof -
  from lacks have nb: "\<not> (\<exists>kvs. v = JObj kvs \<and> map_of kvs ''diagram_json'' \<noteq> None \<and>
                     map_of kvs ''bpmn_xml'' \<noteq> None)" by auto
  note m = main_of_reply [OF long nb, of s]
  have obj: "has_both_keys v = Inr False" if "(\<exists>kvs. v = JObj kvs) \<or> \<not> py_truthy v"
    using that lacks by (auto simp: has_both_keys_obj has_both_keys_falsy)
  show ?thesis
  proof (cases "has_both_keys v = Inr False")
    case True
    with m show ?thesis unfolding r by simp
  next
    case False
    with obj have "\<not> ((\<exists>kvs. v = JObj kvs) \<or> \<not> py_truthy v)" by blast
    with False m show ?thesis unfolding r by simp
  qed
qed

text \<open>A reply with the graph and without the XML.\<close>

theorem missing_key_is_rejected_witness:
  "20 \<le> length (strip description) \<and>
   main True (Loaded (JObj [(''diagram_json'', scenario_graph)])) True description stored_state =
     \<lparr>state = stored_state\<lparr>diagram_generated := False\<rparr>, shown = [ErrorFailedToGenerate],
      raised = None\<rparr>"
proof -
  have lacks: "\<forall>kvs. JObj [(''diagram_json'', scenario_graph)] = JObj kvs \<longrightarrow>
                  map_of kvs ''diagram_json'' = None \<or> map_of kvs ''bpmn_xml'' = None"
    by simp
  have obj: "(\<exists>kvs. JObj [(''diagram_json'', scenario_graph)] = JObj kvs) \<or>
             \<not> py_truthy (JObj [(''diagram_json'', scenario_graph)])" by simp
  from missing_key_is_rejected [OF description_long lacks refl, of stored_state] obj
  have "main True (Loaded (JObj [(''diagram_json'', scenario_graph)])) True description
          stored_state =
     \<lparr>state = stored_state\<lparr>diagram_generated := False\<rparr>, shown = [ErrorFailedToGenerate],
      raised = None\<rparr>"
    by blast
  with description_long show ?thesis by (rule conjI)
qed

text \<open>
  As stated, for every body that parses, the claim fails: the body \<^verbatim>\<open>5\<close> is valid JSON
  and has neither key; line 266 evaluates \<^verbatim>\<open>"diagram_json" in 5\<close>, which raises
  \<^verbatim>\<open>TypeError\<close>, and the error branch is not taken.
\<close>

theorem number_reply_raises:
  "main True (Loaded (JInt 5)) True description stored_state =
     \<lparr>state = stored_state, shown = [], raised = Some TypeError\<rparr>"
  using description_long
  by (simp add: main_def get_structured_process_flow_def has_both_keys_def)

subsection \<open>C9: the session after a failed extraction\<close>

text \<open>
  C9, amended. When a generate request fails at extraction (anything but a client that
  obtains a dict with both keys), the stored graph, XML and rendered diagram are left as
  they were and no success is shown. The flag \<^verbatim>\<open>diagram_generated\<close> is set to false
  (line 275) exactly when the run ends without an exception, and the error notice is
  then shown: that is so without a client, after \<^verbatim>\<open>JSONDecodeError\<close> from \<^verbatim>\<open>json.loads\<close>,
  after any other exception than \<^verbatim>\<open>JSONDecodeError\<close>, and for a reply that is a dict or
  falsy. The flag keeps its value when the run ends in an exception: \<^verbatim>\<open>UnboundLocalError\<close>
  when the request itself raises \<^verbatim>\<open>JSONDecodeError\<close>, and for other replies possibly
  \<^verbatim>\<open>TypeError\<close>.
\<close>

theorem failed_extraction_keeps_pair:
  assumes long: "20 \<le> length (strip user_input)"
    and fails: "\<not> (client \<and> (\<exists>kvs. c = Loaded (JObj kvs) \<and>
                    map_of kvs ''diagram_json'' \<noteq> None \<and> map_of kvs ''bpmn_xml'' \<noteq> None))"
    and r: "r = main client c True user_input s"
  shows "state r = (if raised r = None then s\<lparr>diagram_generated := False\<rparr> else s) \<and>
         (raised r = None \<longrightarrow> ErrorFailedToGenerate \<in> set (shown r)) \<and>
         SuccessGenerated \<notin> set (shown r) \<and>
         (\<not> client \<or> c = JSONDecodeError \<or> c = OtherException \<or>
          (\<exists>v. c = Loaded v \<and> ((\<exists>kvs. v = JObj kvs) \<or> \<not> py_truthy v)) \<longrightarrow>
            raised r = None) \<and>
         (client \<and> c = RequestJSONDecodeError \<longrightarrow> raised r = Some UnboundLocalError) \<and>
         (client \<and> (\<exists>v. c = Loaded v) \<longrightarrow> raised r = None \<or> raised r = Some TypeError)"
proof (cases client)
  case False
  then show ?thesis unfolding r by (simp add: main_of_failure(1) [OF long])
next
  case True
  then have cl: "client = True" by simp
  show ?thesis
  proof (cases c)
    case (Loaded v)
    with True fails have nb: "\<not> (\<exists>kvs. v = JObj kvs \<and> map_of kvs ''diagram_json'' \<noteq> None \<and>
                     map_of kvs ''bpmn_xml'' \<noteq> None)" by simp
    note m = main_of_reply [OF long nb, of s]
    have obj: "has_both_keys v = Inr False" if "(\<exists>kvs. v = JObj kvs) \<or> \<not> py_truthy v"
      using that nb by (auto simp: has_both_keys_obj has_both_keys_falsy)
    show ?thesis
    proof (cases "has_both_keys v = Inr False")
      case True
      with m show ?thesis unfolding r cl Loaded by simp
    next
      case False
      with obj have "\<not> ((\<exists>kvs. v = JObj kvs) \<or> \<not> py_truthy v)" by blast
      with False m show ?thesis unfolding r cl Loaded by simp
    qed
  next
    case JSONDecodeError
    then show ?thesis unfolding r cl by (simp add: main_of_failure(2) [OF long])
  next
    case RequestJSONDecodeError
    then show ?thesis unfolding r cl by (simp add: main_of_failure(4) [OF long])
  next
    case OtherException
    then show ?thesis unfolding r cl by (simp add: main_of_failure(3) [OF long])
  qed
qed

text \<open>
  A reply that \<^verbatim>\<open>json.loads\<close> rejects resets the flag; a request that raises
  \<^verbatim>\<open>JSONDecodeError\<close> leaves the whole session as it was.
\<close>

theorem failed_extraction_keeps_pair_witness:
  "20 \<le> length (strip description) \<and>
   state (main True JSONDecodeError True description stored_state) =
     stored_state\<lparr>diagram_generated := False\<rparr> \<and>
   raised (main True JSONDecodeError True description stored_state) = None \<and>
   state (main True RequestJSONDecodeError True description stored_state) = stored_state \<and>
   raised (main True RequestJSONDecodeError True description stored_state) =
     Some UnboundLocalError"
proof -
  have f1: "\<not> (True \<and> (\<exists>kvs. JSONDecodeError = Loaded (JObj kvs) \<and>
                    map_of kvs ''diagram_json'' \<noteq> None \<and> map_of kvs ''bpmn_xml'' \<noteq> None))"
    by simp
  have f2: "\<not> (True \<and> (\<exists>kvs. RequestJSONDecodeError = Loaded (JObj kvs) \<and>
                    map_of kvs ''diagram_json'' \<noteq> None \<and> map_of kvs ''bpmn_xml'' \<noteq> None))"
    by simp
  note a = failed_extraction_keeps_pair [OF description_long f1 refl, of stored_state]
  note b = failed_extraction_keeps_pair [OF description_long f2 refl, of stored_state]
  from a have a1: "raised (main True JSONDecodeError True description stored_state) = None"
    by simp
  with a have a2: "state (main True JSONDecodeError True description stored_state) =
     stored_state\<lparr>diagram_generated := False\<rparr>" by simp
  from b have b1: "raised (main True RequestJSONDecodeError True description stored_state) =
     Some UnboundLocalError" by simp
  with b have b2: "state (main True RequestJSONDecodeError True description stored_state) =
     stored_state" by simp
  show ?thesis by (intro conjI description_long a1 a2 b1 b2)
qed

text \<open>
  As stated the claim fails: after a reply that is not JSON the generation status of a
  session that held a diagram is false.
\<close>

theorem failed_extraction_clears_status:
  "diagram_generated stored_state \<and>
   \<not> diagram_generated (state (main True JSONDecodeError True description stored_state))"
  using description_long
  by (simp add: main_def get_structured_process_flow_def has_both_keys_null stored_state_def)

subsection \<open>C10: a node without a type\<close>

text \<open>
  C10. Let \<open>n\<close> be a node that has no \<^verbatim>\<open>type\<close> key and sits in the swimlane at position
  \<open>j\<close>. Whenever \<^verbatim>\<open>generate_bpmn_diagram\<close> returns a diagram, cluster \<open>j\<close> holds \<open>n\<close> drawn
  as a task, a blue rounded box with its id and its label, not as the gray box of an
  unknown type. The call returns a diagram for every well-formed graph.
\<close>

theorem missing_type_is_task:
  assumes sw: "swimlanes_of g = Inr sls" and nd: "nodes_of g = Inr ns"
    and j: "j < length sls" and n: "n \<in> set ns" and lane: "lane_key n = id_key (sls ! j)"
    and obj: "n = JObj kvs" and untyped: "map_of kvs ''type'' = None"
  shows "(well_formed g \<longrightarrow> (\<exists>d. generate_bpmn_diagram g = Inr d)) \<and>
         (\<forall>d. generate_bpmn_diagram g = Inr d \<longrightarrow>
            (\<exists>i l. map_of kvs ''id'' = Some i \<and> map_of kvs ''label'' = Some l \<and>
               NodeStmt i
                 [(''label'', l), (''shape'', JStr ''box''), (''style'', JStr ''rounded,filled''),
                  (''fillcolor'', JStr ''#2196F3''), (''fontcolor'', JStr ''white'')]
                 \<in> set (cluster_shapes (clusters_of d ! j))))"
proof (rule conjI)
  show "well_formed g \<longrightarrow> (\<exists>d. generate_bpmn_diagram g = Inr d)"
    using well_formed_returns by blast
next
  show "\<forall>d. generate_bpmn_diagram g = Inr d \<longrightarrow>
            (\<exists>i l. map_of kvs ''id'' = Some i \<and> map_of kvs ''label'' = Some l \<and>
               NodeStmt i
                 [(''label'', l), (''shape'', JStr ''box''), (''style'', JStr ''rounded,filled''),
                  (''fillcolor'', JStr ''#2196F3''), (''fontcolor'', JStr ''white'')]
                 \<in> set (cluster_shapes (clusters_of d ! j)))"
  proof (intro allI impI)
    fix d assume r: "generate_bpmn_diagram g = Inr d"
    from rendered_cluster [OF r sw nd j] obtain i' k shapes where
      i': "py_getitem (sls ! j) ''id'' = Inr i'" and k: "py_hash i' = Inr k" and
      f: "for_each add_node (filter (\<lambda>n. lane_key n = Inr k) ns) = Inr shapes" and
      sh: "cluster_shapes (clusters_of d ! j) = shapes"
      by blast
    have "id_key (sls ! j) = Inr k" using i' k by (simp add: id_key_def)
    with lane n have "n \<in> set (filter (\<lambda>n. lane_key n = Inr k) ns)" by simp
    from for_each_source [OF f this] obtain y where
      y: "y \<in> set shapes" "add_node n = Inr y" by blast
    from add_node_Inr [OF y(2)] obtain i l t where
      il: "py_getitem n ''id'' = Inr i" "py_getitem n ''label'' = Inr l" and
      t: "py_get n ''type'' (JStr ''task'') = Inr t" and
      s: "y = NodeStmt i ((''label'', l) # node_styles t)"
      by blast
    from t obj untyped have "t = JStr ''task''" by simp
    with s have "y = NodeStmt i
               [(''label'', l), (''shape'', JStr ''box''), (''style'', JStr ''rounded,filled''),
                (''fillcolor'', JStr ''#2196F3''), (''fontcolor'', JStr ''white'')]"
      by (simp only: node_styles_known)
    moreover from il obj have "map_of kvs ''id'' = Some i" "map_of kvs ''label'' = Some l"
      by (simp_all only: getitem_obj)
    ultimately show "\<exists>i l. map_of kvs ''id'' = Some i \<and> map_of kvs ''label'' = Some l \<and>
               NodeStmt i
                 [(''label'', l), (''shape'', JStr ''box''), (''style'', JStr ''rounded,filled''),
                  (''fillcolor'', JStr ''#2196F3''), (''fontcolor'', JStr ''white'')]
                 \<in> set (cluster_shapes (clusters_of d ! j))"
      using y(1) sh by blast
  qed
qed

text \<open>The node \<^verbatim>\<open>review\<close> of the example has no type and sits in the second swimlane.\<close>

theorem missing_type_is_task_witness:
  "well_formed degraded_graph \<and> untyped_node \<in> set degraded_nodes \<and>
   lane_key untyped_node = id_key (degraded_swimlanes ! 1) \<and>
   (\<exists>d. generate_bpmn_diagram degraded_graph = Inr d \<and>
        NodeStmt (JStr ''review'')
          [(''label'', JStr ''Review''), (''shape'', JStr ''box''),
           (''style'', JStr ''rounded,filled''), (''fillcolor'', JStr ''#2196F3''),
           (''fontcolor'', JStr ''white'')]
          \<in> set (cluster_shapes (clusters_of d ! 1)))"
proof -
  have wf: "well_formed degraded_graph" by (rule degraded_graph_well_formed)
  have j: "(1::nat) < length degraded_swimlanes" by (simp add: degraded_swimlanes_def)
  have n: "untyped_node \<in> set degraded_nodes" by (simp add: degraded_nodes_def)
  have lane: "lane_key untyped_node = id_key (degraded_swimlanes ! 1)"
    by (simp add: lane_key_def id_key_def untyped_node_def degraded_swimlanes_def)
  have obj: "untyped_node =
      JObj [(''id'', JStr ''review''), (''label'', JStr ''Review''), (''swimlane'', JStr ''agent'')]"
    by (simp add: untyped_node_def)
  have untyped: "map_of [(''id'', JStr ''review''), (''label'', JStr ''Review''),
                         (''swimlane'', JStr ''agent'')] ''type'' = None"
    by simp
  note t = missing_type_is_task [OF degraded_parts(1,2) j n lane obj untyped]
  from t [THEN conjunct1, THEN mp, OF wf] obtain d where
    d: "generate_bpmn_diagram degraded_graph = Inr d" by (rule exE)
  from t [THEN conjunct2, THEN spec, THEN mp, OF d] obtain i l where
    i: "map_of [(''id'', JStr ''review''), (''label'', JStr ''Review''),
                (''swimlane'', JStr ''agent'')] ''id'' = Some i" and
    l: "map_of [(''id'', JStr ''review''), (''label'', JStr ''Review''),
                (''swimlane'', JStr ''agent'')] ''label'' = Some l" and
    s: "NodeStmt i
          [(''label'', l), (''shape'', JStr ''box''), (''style'', JStr ''rounded,filled''),
           (''fillcolor'', JStr ''#2196F3''), (''fontcolor'', JStr ''white'')]
          \<in> set (cluster_shapes (clusters_of d ! 1))"
    by blast
  from i have "i = JStr ''review''" by simp
  moreover from l have "l = JStr ''Review''" by simp
  ultimately have s': "NodeStmt (JStr ''review'')
          [(''label'', JStr ''Review''), (''shape'', JStr ''box''),
           (''style'', JStr ''rounded,filled''), (''fillcolor'', JStr ''#2196F3''),
           (''fontcolor'', JStr ''white'')]
          \<in> set (cluster_shapes (clusters_of d ! 1))"
    using s by simp
  show ?thesis by (intro conjI exI [of _ d] wf n lane d s')
qed

end
